theory Spec2Isabelle
  imports Main "HOL-Library.Sublist"
begin

section \<open>The cockroachdb transformer\<close>

text \<open>
  A shallow embedding of \<^verbatim>\<open>testutil/cockroachdb-transformer/main.go\<close>: the program
  decodes the configuration held by the environment variable \<^verbatim>\<open>API_CONFIG\<close>, copies
  its standard input to its standard output, prints a document separator, defaults the
  replica count from the environment variable \<^verbatim>\<open>REPLICAS\<close> and renders a fixed
  template of four resources.
\<close>

subsection \<open>The configuration object\<close>

text \<open>
  The structs \<^verbatim>\<open>Metadata\<close>, \<^verbatim>\<open>Spec\<close> and \<^verbatim>\<open>API\<close>. The field
  \<^verbatim>\<open>Replicas *int\<close> is a pointer so that an absent field (\<^verbatim>\<open>nil\<close>, here
  \<open>None\<close>) differs from an explicit zero. Go's \<^verbatim>\<open>int\<close> is taken as the 64-bit
  type; the program does no arithmetic on it, and the one place where its range matters
  (\<^verbatim>\<open>strconv.Atoi\<close>) checks the range explicitly.
\<close>

record Metadata =
  Name :: string

record Spec =
  Replicas :: "int option"

record API =
  Metadata :: Metadata
  Spec :: Spec

subsection \<open>Errors, the process and its streams\<close>

datatype num_err = ErrSyntax | ErrRange

text \<open>
  The error values the program can meet: what the decoder of the configuration returns
  (a syntax error, \<^verbatim>\<open>io.EOF\<close> for a stream with no document, a type error with its
  messages), \<^verbatim>\<open>*strconv.NumError\<close> (function, input, cause), a failed read of the
  standard input, and the errors of the template package.
\<close>

datatype error =
    YamlError string
  | EOF
  | TypeError "string list"
  | NumError string string num_err
  | ReadError string
  | TemplateError string
  | ExecError string

text \<open>
  A run ends by \<^verbatim>\<open>os.Exit(1)\<close>, by returning from \<^verbatim>\<open>main\<close> (status 0) or
  by \<^verbatim>\<open>panic(err)\<close>. The standard output is the sequence of bytes written, in
  order; the standard error is the list of errors printed with \<^verbatim>\<open>"%v\n"\<close> (their
  message text is the libraries' and is not modelled). Writes are taken to succeed.
\<close>

datatype status = Exit nat | Panic error

record process =
  stdout :: string
  stderr :: "error list"
  status :: status

text \<open>
  \<^verbatim>\<open>os.Getenv\<close> returns the empty string for a variable that is not set.
\<close>

definition Getenv :: "(string \<rightharpoonup> string) \<Rightarrow> string \<Rightarrow> string" where
  "Getenv env key = (case env key of None \<Rightarrow> [] | Some v \<Rightarrow> v)"

text \<open>
  The standard input: the bytes that can be read from it, and how reading ends
  (\<open>None\<close>: end of file; \<open>Some err\<close>: a failed read). \<^verbatim>\<open>io.Copy\<close> writes
  every byte it has read and returns the first error other than end of file. A stream
  that never ends is not modelled: the copy would not return.
\<close>

datatype reader = Reader string "error option"

fun io_Copy :: "reader \<Rightarrow> string \<times> error option" where
  "io_Copy (Reader bytes err) = (bytes, err)"

definition Println :: "string \<Rightarrow> string" where
  "Println s = s @ [CHR 0x0A]"

subsection \<open>Decimal integers\<close>

text \<open>
  \<^verbatim>\<open>strconv.Atoi\<close> (Go's standard library, not part of the repository), after its
  documentation and \<^verbatim>\<open>ParseInt(s, 10, 0)\<close>: an optional sign, then one or more decimal
  digits; any other byte is a syntax error. The digits are accumulated as an unsigned
  64-bit number (\<open>ParseUint_loop\<close>: a range error as soon as it would overflow), and
  the signed result must lie in \<open>[-2^63, 2^63)\<close>.
\<close>

definition isDigit :: "char \<Rightarrow> bool" where
  "isDigit c \<longleftrightarrow> c \<in> set ''0123456789''"

definition digitVal :: "char \<Rightarrow> nat" where
  "digitVal c = of_char c - 48"

fun ParseUint_loop :: "nat \<Rightarrow> string \<Rightarrow> num_err + nat" where
  "ParseUint_loop n [] = Inr n"
| "ParseUint_loop n (c # cs) =
     (if \<not> isDigit c then Inl ErrSyntax
      else if n \<ge> (2 ^ 64 - 1) div 10 + 1 then Inl ErrRange
      else if n * 10 + digitVal c > 2 ^ 64 - 1 then Inl ErrRange
      else ParseUint_loop (n * 10 + digitVal c) cs)"

definition ParseInt :: "string \<Rightarrow> num_err + int" where
  "ParseInt s =
     (if s = [] then Inl ErrSyntax
      else
        let neg = (hd s = CHR ''-'');
            ds = (if hd s = CHR ''+'' \<or> hd s = CHR ''-'' then tl s else s)
        in if ds = [] then Inl ErrSyntax
           else (case ParseUint_loop 0 ds of
                   Inl e \<Rightarrow> Inl e
                 | Inr un \<Rightarrow>
                     if \<not> neg \<and> un \<ge> 2 ^ 63 then Inl ErrRange
                     else if neg \<and> un > 2 ^ 63 then Inl ErrRange
                     else Inr (if neg then - int un else int un)))"

definition Atoi :: "string \<Rightarrow> error + int" where
  "Atoi s = (case ParseInt s of
               Inl e \<Rightarrow> Inl (NumError ''Atoi'' s e)
             | Inr n \<Rightarrow> Inr n)"

text \<open>
  How \<^verbatim>\<open>fmt\<close> prints an \<^verbatim>\<open>int\<close>: decimal digits, with a minus sign for a negative
  number.
\<close>

definition digitChar :: "nat \<Rightarrow> char" where
  "digitChar d = ''0123456789'' ! d"

function digits :: "nat \<Rightarrow> string" where
  "digits n = (if n < 10 then [digitChar n] else digits (n div 10) @ [digitChar (n mod 10)])"
  by pat_completeness auto
termination
  by (relation "measure id") auto

declare digits.simps [simp del]

definition Itoa :: "int \<Rightarrow> string" where
  "Itoa i = (if i < 0 then CHR ''-'' # digits (nat (- i)) else digits (nat i))"

subsection \<open>Defaulting the replica count\<close>

text \<open>
  Lines 62 to 75 of \<^verbatim>\<open>main\<close>, with \<open>r\<close> the value of \<^verbatim>\<open>REPLICAS\<close>: the
  environment is parsed only when it is not empty and the configuration gave no
  replica count; a count still missing afterwards becomes 1. A string that
  \<^verbatim>\<open>Atoi\<close> rejects ends the run.
\<close>

definition default_Replicas :: "string \<Rightarrow> API \<Rightarrow> error + API" where
  "default_Replicas r api =
     (case (if r \<noteq> [] \<and> Replicas (Spec api) = None
            then (case Atoi r of
                    Inl err \<Rightarrow> Inl err
                  | Inr replicas \<Rightarrow> Inr (api\<lparr>Spec := (Spec api)\<lparr>Replicas := Some replicas\<rparr>\<rparr>))
            else Inr api) of
        Inl err \<Rightarrow> Inl err
      | Inr api' \<Rightarrow>
          Inr (if Replicas (Spec api') = None
               then api'\<lparr>Spec := (Spec api')\<lparr>Replicas := Some 1\<rparr>\<rparr>
               else api'))"

subsection \<open>The template\<close>

text \<open>
  The raw string \<^verbatim>\<open>t\<close> of the source, line by line (every line with its newline;
  the string starts with the newline that follows the opening back quote). The 192 lines
  are kept in twelve consecutive sections so that each can be evaluated on its own;
  \<open>t\<close> is their concatenation, in the order of the source.
\<close>

definition t_public_service :: "string list" where
  \<open>t_public_service =
    [
     ''\<newline>'',
     ''apiVersion: v1\<newline>'',
     ''kind: Service\<newline>'',
     ''metadata:\<newline>'',
     ''  # This service is meant to be used by clients of the database. It exposes a ClusterIP that will\<newline>'',
     ''  # automatically load balance connections to the different database pods.\<newline>'',
     ''  name: {{ .Metadata.Name }}-public\<newline>'',
     ''  labels:\<newline>'',
     ''    app: {{ .Metadata.Name }}-cockroachdb\<newline>'',
     ''  annotations:\<newline>'',
     ''    kpt.dev/kio/path: null\<newline>'',
     ''    kpt.dev/kio/index: null\<newline>'',
     ''spec:\<newline>'',
     ''  ports:\<newline>'',
     ''  # The main port, served by gRPC, serves Postgres-flavor SQL, internode\<newline>'',
     ''  # traffic and the cli.\<newline>'',
     ''  - port: 26257\<newline>'',
     ''    targetPort: 26257\<newline>'',
     ''    name: grpc\<newline>'',
     ''  # The secondary port serves the UI as well as health and debug endpoints.\<newline>'',
     ''  - port: 8080\<newline>'',
     ''    targetPort: 8080\<newline>'',
     ''    name: http\<newline>'',
     ''  selector:\<newline>'',
     ''    app: {{ .Metadata.Name }}-cockroachdb\<newline>'',
     ''---\<newline>'']\<close>

definition t_service_metadata :: "string list" where
  \<open>t_service_metadata =
    [
     ''apiVersion: v1\<newline>'',
     ''kind: Service\<newline>'',
     ''metadata:\<newline>'',
     ''  # This service only exists to create DNS entries for each pod in the stateful\<newline>'',
     ''  # set such that they can resolve each other's IP addresses. It does not\<newline>'',
     ''  # create a load-balanced ClusterIP and should not be used directly by clients\<newline>'',
     ''  # in most circumstances.\<newline>'',
     ''  name: {{ .Metadata.Name }}\<newline>'',
     ''  labels:\<newline>'',
     ''    app: {{ .Metadata.Name }}-cockroachdb\<newline>'',
     ''  annotations:\<newline>'',
     ''    # This is needed to make the peer-finder work properly and to help avoid\<newline>'',
     ''    # edge cases where instance 0 comes up after losing its data and needs to\<newline>'',
     ''    # decide whether it should create a new cluster or try to join an existing\<newline>'',
     ''    # one. If it creates a new cluster when it should have joined an existing\<newline>'',
     ''    # one, we'd end up with two separate clusters listening at the same service\<newline>'',
     ''    # endpoint, which would be very bad.\<newline>'',
     ''    service.alpha.kubernetes.io/tolerate-unready-endpoints: "true"\<newline>'',
     ''    # Enable automatic monitoring of all instances when Prometheus is running in the cluster.\<newline>'',
     ''    prometheus.io/scrape: "true"\<newline>'',
     ''    prometheus.io/path: "_status/vars"\<newline>'',
     ''    prometheus.io/port: "8080"\<newline>'',
     ''    kpt.dev/kio/path: null\<newline>'',
     ''    kpt.dev/kio/index: null\<newline>'']\<close>

definition t_service_spec :: "string list" where
  \<open>t_service_spec =
    [
     ''spec:\<newline>'',
     ''  ports:\<newline>'',
     ''  - port: 26257\<newline>'',
     ''    targetPort: 26257\<newline>'',
     ''    name: grpc\<newline>'',
     ''  - port: 8080\<newline>'',
     ''    targetPort: 8080\<newline>'',
     ''    name: http\<newline>'',
     ''  clusterIP: None\<newline>'',
     ''  selector:\<newline>'',
     ''    app: {{ .Metadata.Name }}-cockroachdb\<newline>'',
     ''---\<newline>'']\<close>

definition t_budget :: "string list" where
  \<open>t_budget =
    [
     ''apiVersion: policy/v1beta1\<newline>'',
     ''kind: PodDisruptionBudget\<newline>'',
     ''metadata:\<newline>'',
     ''  name: cockroachdb-budget\<newline>'',
     ''  labels:\<newline>'',
     ''    app: {{ .Metadata.Name }}-cockroachdb\<newline>'',
     ''  annotations:\<newline>'',
     ''    kpt.dev/kio/path: null\<newline>'',
     ''    kpt.dev/kio/index: null\<newline>'',
     ''spec:\<newline>'',
     ''  selector:\<newline>'',
     ''    matchLabels:\<newline>'',
     ''      app: {{ .Metadata.Name }}-cockroachdb\<newline>'',
     ''  minAvailable: 67%\<newline>'',
     ''---\<newline>'']\<close>

definition t_statefulset_metadata :: "string list" where
  \<open>t_statefulset_metadata =
    [
     ''apiVersion: apps/v1  #  for k8s versions before 1.9.0 use apps/v1beta2  and before 1.8.0 use extensions/v1beta1\<newline>'',
     ''kind: StatefulSet\<newline>'',
     ''metadata:\<newline>'',
     ''  name: {{ .Metadata.Name }}\<newline>'',
     ''  labels:\<newline>'',
     ''    app: {{ .Metadata.Name }}-cockroachdb\<newline>'',
     ''  annotations:\<newline>'',
     ''    kpt.dev/kio/path: null\<newline>'',
     ''    kpt.dev/kio/index: null\<newline>'',
     ''    kpt.dev/duck/set-image: disabled\<newline>'',
     ''    kpt.dev/duck/get-image: disabled\<newline>'',
     ''    kpt.dev/duck/set-replicas: disabled\<newline>'',
     ''    kpt.dev/duck/get-replicas: disabled\<newline>'']\<close>

definition t_statefulset_spec :: "string list" where
  \<open>t_statefulset_spec =
    [
     ''spec:\<newline>'',
     ''  serviceName: {{ .Metadata.Name }}\<newline>'',
     ''  replicas: {{ .Spec.Replicas }}\<newline>'',
     ''  selector:\<newline>'',
     ''    matchLabels:\<newline>'',
     ''      app: {{ .Metadata.Name }}-cockroachdb\<newline>'',
     ''  template:\<newline>'',
     ''    metadata:\<newline>'',
     ''      labels:\<newline>'',
     ''        app: {{ .Metadata.Name }}-cockroachdb\<newline>'']\<close>

definition t_pod_spec :: "string list" where
  \<open>t_pod_spec =
    [
     ''    spec:\<newline>'',
     ''      # Init containers are run only once in the lifetime of a pod, before\<newline>'',
     ''      # it's started up for the first time. It has to exit successfully\<newline>'',
     ''      # before the pod's main containers are allowed to start.\<newline>'',
     ''      # This particular init container does a DNS lookup for other pods in\<newline>'',
     ''      # the set to help determine whether or not a cluster already exists.\<newline>'',
     ''      # If any other pods exist, it creates a file in the cockroach-data\<newline>'',
     ''      # directory to pass that information along to the primary container that\<newline>'',
     ''      # has to decide what command-line flags to use when starting CockroachDB.\<newline>'',
     ''      # This only matters when a pod's persistent volume is empty - if it has\<newline>'',
     ''      # data from a previous execution, that data will always be used.\<newline>'',
     ''      #\<newline>'',
     ''      # If your Kubernetes cluster uses a custom DNS domain, you will have\<newline>'',
     ''      # to add an additional arg to this pod: "-domain=<your-custom-domain>"\<newline>'']\<close>

definition t_init_containers :: "string list" where
  \<open>t_init_containers =
    [
     ''      initContainers:\<newline>'',
     ''      - name: bootstrap\<newline>'',
     ''        image: cockroachdb/cockroach-k8s-init:0.1\<newline>'',
     ''        imagePullPolicy: IfNotPresent\<newline>'',
     ''        args:\<newline>'',
     ''        - "-on-start=/on-start.sh"\<newline>'',
     ''        - "-service=cockroachdb"\<newline>'',
     ''        env:\<newline>'',
     ''        - name: POD_NAMESPACE\<newline>'',
     ''          valueFrom:\<newline>'',
     ''            fieldRef:\<newline>'',
     ''              fieldPath: metadata.namespace\<newline>'',
     ''        volumeMounts:\<newline>'',
     ''        - name: datadir\<newline>'',
     ''          mountPath: "/cockroach/cockroach-data"\<newline>'']\<close>

definition t_affinity :: "string list" where
  \<open>t_affinity =
    [
     ''      affinity:\<newline>'',
     ''        podAntiAffinity:\<newline>'',
     ''          preferredDuringSchedulingIgnoredDuringExecution:\<newline>'',
     ''          - weight: 100\<newline>'',
     ''            podAffinityTerm:\<newline>'',
     ''              labelSelector:\<newline>'',
     ''                matchExpressions:\<newline>'',
     ''                - key: app\<newline>'',
     ''                  operator: In\<newline>'',
     ''                  values:\<newline>'',
     ''                  - cockroachdb\<newline>'',
     ''              topologyKey: kubernetes.io/hostname\<newline>'']\<close>

definition t_containers :: "string list" where
  \<open>t_containers =
    [
     ''      containers:\<newline>'',
     ''      - name: cockroachdb\<newline>'',
     ''        image: cockroachdb/cockroach:v1.1.0\<newline>'',
     ''        imagePullPolicy: IfNotPresent\<newline>'',
     ''        ports:\<newline>'',
     ''        - containerPort: 26257\<newline>'',
     ''          name: grpc\<newline>'',
     ''        - containerPort: 8080\<newline>'',
     ''          name: http\<newline>'',
     ''        volumeMounts:\<newline>'',
     ''        - name: datadir\<newline>'',
     ''          mountPath: /cockroach/cockroach-data\<newline>'']\<close>

definition t_command :: "string list" where
  \<open>t_command =
    [
     ''        command:\<newline>'',
     ''          - "/bin/bash"\<newline>'',
     ''          - "-ecx"\<newline>'',
     ''          - |\<newline>'',
     ''            # The use of qualified `hostname -f` is crucial:\<newline>'',
     ''            # Other nodes aren't able to look up the unqualified hostname.\<newline>'',
     ''            CRARGS=("start" "--logtostderr" "--insecure" "--host" "$(hostname -f)" "--http-host" "0.0.0.0")\<newline>'',
     ''            # We only want to initialize a new cluster (by omitting the join flag)\<newline>'',
     ''            # if we're sure that we're the first node (i.e. index 0) and that\<newline>'',
     ''            # there aren't any other nodes running as part of the cluster that\<newline>'',
     ''            # this is supposed to be a part of (which indicates that a cluster\<newline>'',
     ''            # already exists and we should make sure not to create a new one).\<newline>'',
     ''            # It's fine to run without --join on a restart if there aren't any\<newline>'',
     ''            # other nodes.\<newline>'',
     ''            if [ ! "$(hostname)" == "cockroachdb-0" ] || '' @ [CHR 0x5C] @ ''\<newline>'',
     ''               [ -e "/cockroach/cockroach-data/cluster_exists_marker" ]\<newline>'',
     ''            then\<newline>'',
     ''              # We don't join cockroachdb in order to avoid a node attempting\<newline>'',
     ''              # to join itself, which currently doesn't work\<newline>'',
     ''              # (https://github.com/cockroachdb/cockroach/issues/9625).\<newline>'',
     ''              CRARGS+=("--join" "cockroachdb-public")\<newline>'',
     ''            fi\<newline>'',
     ''            exec /cockroach/cockroach ${CRARGS[*]}\<newline>'',
     ''      # No pre-stop hook is required, a SIGTERM plus some time is all that's\<newline>'',
     ''      # needed for graceful shutdown of a node.\<newline>'']\<close>

definition t_volumes :: "string list" where
  \<open>t_volumes =
    [
     ''      terminationGracePeriodSeconds: 60\<newline>'',
     ''      volumes:\<newline>'',
     ''      - name: datadir\<newline>'',
     ''        persistentVolumeClaim:\<newline>'',
     ''          claimName: datadir\<newline>'',
     ''  volumeClaimTemplates:\<newline>'',
     ''  - metadata:\<newline>'',
     ''      name: datadir\<newline>'',
     ''    spec:\<newline>'',
     ''      accessModes:\<newline>'',
     ''        - "ReadWriteOnce"\<newline>'',
     ''      resources:\<newline>'',
     ''        requests:\<newline>'',
     ''          storage: 1Gi\<newline>'']\<close>

definition t_lines :: "string list" where
  "t_lines =
     t_public_service @
     t_service_metadata @
     t_service_spec @
     t_budget @
     t_statefulset_metadata @
     t_statefulset_spec @
     t_pod_spec @
     t_init_containers @
     t_affinity @
     t_containers @
     t_command @
     t_volumes"

definition t :: string where
  "t = concat t_lines"

text \<open>
  \<^verbatim>\<open>text/template\<close> (Go's standard library), for the templates this program uses:
  text, and actions \<^verbatim>\<open>{{ .Field.Field }}\<close> that print a field of the data. A parsed
  template is a list of nodes. \<open>Parse\<close> cuts the text at each left delimiter, reads
  a chain of field names up to the right delimiter, and reports every other action
  (pipelines, trim markers, comments, variables, actions that run over a line end) as
  an error: those lie outside this model, and the template \<open>t\<close> has none.
\<close>

datatype tmpl_node = TextNode string | ActionNode "string list"

definition leftDelim :: string where
  "leftDelim = ''{{''"

definition rightDelim :: string where
  "rightDelim = ''}}''"

definition isSpace :: "char \<Rightarrow> bool" where
  "isSpace c \<longleftrightarrow> c = CHR '' '' \<or> c = CHR 0x09"

definition isAlphaNumeric :: "char \<Rightarrow> bool" where
  "isAlphaNumeric c \<longleftrightarrow>
     c \<in> set ''_abcdefghijklmnopqrstuvwxyzABCDEFGHIJKLMNOPQRSTUVWXYZ0123456789''"

function fieldChain :: "string \<Rightarrow> (string list \<times> string) option" where
  "fieldChain s =
     (case s of
        [] \<Rightarrow> None
      | c # s' \<Rightarrow>
          if c \<noteq> CHR ''.'' then None
          else
            let ident = takeWhile isAlphaNumeric s';
                rest = dropWhile isAlphaNumeric s'
            in if ident = [] then None
               else if rest \<noteq> [] \<and> hd rest = CHR ''.''
               then map_option (\<lambda>(fs, r). (ident # fs, r)) (fieldChain rest)
               else Some ([ident], rest))"
  by pat_completeness auto
termination
  by (relation "measure length") (auto intro: le_imp_less_Suc length_dropWhile_le)

declare fieldChain.simps [simp del]

lemma fieldChain_Nil: "fieldChain [] = None"
  by (simp add: fieldChain.simps)

definition action :: "string \<Rightarrow> error + (string list \<times> string)" where
  "action s =
     (case fieldChain (dropWhile isSpace s) of
        None \<Rightarrow> Inl (TemplateError ''unexpected in action'')
      | Some (fs, s') \<Rightarrow>
          if prefix rightDelim (dropWhile isSpace s')
          then Inr (fs, drop (length rightDelim) (dropWhile isSpace s'))
          else Inl (TemplateError ''unexpected in action''))"

fun text_cons :: "char \<Rightarrow> tmpl_node list \<Rightarrow> tmpl_node list" where
  "text_cons c (TextNode s # ns) = TextNode (c # s) # ns"
| "text_cons c ns = TextNode [c] # ns"

lemma fieldChain_length:
  "fieldChain s = Some (fs, r) \<Longrightarrow> length r < length s"
proof (induction s arbitrary: fs r rule: fieldChain.induct)
  case (1 s)
  show ?case
  proof (cases s)
    case Nil
    with "1.prems" show ?thesis by (simp add: fieldChain_Nil)
  next
    case (Cons c s')
    let ?rest = "dropWhile isAlphaNumeric s'"
    have le: "length ?rest \<le> length s'" by (rule length_dropWhile_le)
    show ?thesis
    proof (cases "c = CHR ''.'' \<and> takeWhile isAlphaNumeric s' \<noteq> [] \<and> ?rest \<noteq> [] \<and> hd ?rest = CHR ''.''")
      case True
      with "1.prems" Cons obtain fs' where "fieldChain ?rest = Some (fs', r)"
        by (subst (asm) fieldChain.simps) (auto simp: Let_def)
      with "1.IH"[OF Cons _ refl refl _ _, of fs' r] True have "length r < length ?rest"
        by simp
      with le Cons show ?thesis by simp
    next
      case False
      with "1.prems" Cons have "r = ?rest"
        by (subst (asm) fieldChain.simps) (auto simp: Let_def split: if_splits)
      with le Cons show ?thesis by simp
    qed
  qed
qed

lemma action_length:
  "action s = Inr (fs, r) \<Longrightarrow> length r \<le> length s"
proof -
  assume a: "action s = Inr (fs, r)"
  then obtain s' where f: "fieldChain (dropWhile isSpace s) = Some (fs, s')"
    and r: "r = drop (length rightDelim) (dropWhile isSpace s')"
    by (auto simp: action_def split: option.splits if_splits)
  have "length r \<le> length s'"
    unfolding r using length_dropWhile_le[of isSpace s'] by simp
  also have "\<dots> \<le> length (dropWhile isSpace s)"
    using fieldChain_length[OF f] by simp
  also have "\<dots> \<le> length s" by (rule length_dropWhile_le)
  finally show ?thesis .
qed

function Parse :: "string \<Rightarrow> error + tmpl_node list" where
  "Parse [] = Inr []"
| "Parse (c # cs) =
     (if prefix leftDelim (c # cs) then
        (case action (drop 1 cs) of
           Inl e \<Rightarrow> Inl e
         | Inr (fs, rest) \<Rightarrow>
             (case Parse rest of
                Inl e \<Rightarrow> Inl e
              | Inr ns \<Rightarrow> Inr (ActionNode fs # ns)))
      else
        (case Parse cs of
           Inl e \<Rightarrow> Inl e
         | Inr ns \<Rightarrow> Inr (text_cons c ns)))"
  by pat_completeness auto
termination
proof (relation "measure length")
  fix c cs x2 x y
  assume "action (drop 1 cs) = Inr x2" and "(x, y) = x2"
  then have "action (drop 1 cs) = Inr (x, y)" by simp
  from action_length[OF this] show "(y, c # cs) \<in> measure length" by simp
qed auto

text \<open>
  Execution. The data of an action is reached from the \<^verbatim>\<open>API\<close> object field by
  field; a name that the value at hand does not have is an error. A string prints as
  it is; the \<^verbatim>\<open>*int\<close> is dereferenced and prints in decimal (\<^verbatim>\<open><nil>\<close> when
  nil). Printing a whole struct is outside this model (the template never does it) and
  is reported as an error.
\<close>

datatype val =
    API_val API
  | Metadata_val Metadata
  | Spec_val Spec
  | string_val string
  | int_ptr_val "int option"

fun evalField :: "val \<Rightarrow> string \<Rightarrow> error + val" where
  "evalField (API_val a) f =
     (if f = ''Metadata'' then Inr (Metadata_val (Metadata a))
      else if f = ''Spec'' then Inr (Spec_val (Spec a))
      else Inl (ExecError f))"
| "evalField (Metadata_val m) f =
     (if f = ''Name'' then Inr (string_val (Name m)) else Inl (ExecError f))"
| "evalField (Spec_val s) f =
     (if f = ''Replicas'' then Inr (int_ptr_val (Replicas s)) else Inl (ExecError f))"
| "evalField (string_val s) f = Inl (ExecError f)"
| "evalField (int_ptr_val p) f = Inl (ExecError f)"

fun evalFieldChain :: "val \<Rightarrow> string list \<Rightarrow> error + val" where
  "evalFieldChain v [] = Inr v"
| "evalFieldChain v (f # fs) =
     (case evalField v f of Inl e \<Rightarrow> Inl e | Inr v' \<Rightarrow> evalFieldChain v' fs)"

fun printValue :: "val \<Rightarrow> error + string" where
  "printValue (string_val s) = Inr s"
| "printValue (int_ptr_val (Some i)) = Inr (Itoa i)"
| "printValue (int_ptr_val None) = Inr ''<nil>''"
| "printValue v = Inl (ExecError ''struct'')"

definition evalAction :: "API \<Rightarrow> string list \<Rightarrow> error + string" where
  "evalAction api fs =
     (case evalFieldChain (API_val api) fs of Inl e \<Rightarrow> Inl e | Inr v \<Rightarrow> printValue v)"

text \<open>
  \<open>Execute\<close> returns what it has written and the error that stopped it, if any:
  the nodes before a failing action have been written by then.
\<close>

fun Execute :: "tmpl_node list \<Rightarrow> API \<Rightarrow> string \<times> error option" where
  "Execute [] api = ([], None)"
| "Execute (TextNode s # ns) api =
     (case Execute ns api of (w, e) \<Rightarrow> (s @ w, e))"
| "Execute (ActionNode fs # ns) api =
     (case evalAction api fs of
        Inl err \<Rightarrow> ([], Some err)
      | Inr s \<Rightarrow> (case Execute ns api of (w, e) \<Rightarrow> (s @ w, e)))"

subsection \<open>The program\<close>

text \<open>
  \<^verbatim>\<open>main\<close>, statement by statement. Its inputs are the environment, the standard
  input and the decoder of \<^verbatim>\<open>gopkg.in/yaml.v3\<close>, which is a library outside the
  repository and is a parameter here: \<open>Decode known s\<close> is the result of
  \<^verbatim>\<open>d.KnownFields(known); d.Decode(api)\<close> on a fresh \<^verbatim>\<open>API\<close> for a decoder
  reading the text \<open>s\<close>.
\<close>

definition main ::
  "(bool \<Rightarrow> string \<Rightarrow> error + API) \<Rightarrow> (string \<rightharpoonup> string) \<Rightarrow> reader \<Rightarrow> process" where
  "main Decode env stdin =
     (case Decode False (Getenv env ''API_CONFIG'') of
        Inl err \<Rightarrow> \<lparr>stdout = [], stderr = [err], status = Exit 1\<rparr>
      | Inr api \<Rightarrow>
          (case io_Copy stdin of
             (copied, Some err) \<Rightarrow> \<lparr>stdout = copied, stderr = [], status = Panic err\<rparr>
           | (copied, None) \<Rightarrow>
               let out = copied @ Println ''\<newline>---'' in
               (case default_Replicas (Getenv env ''REPLICAS'') api of
                  Inl err \<Rightarrow> \<lparr>stdout = out, stderr = [err], status = Exit 1\<rparr>
                | Inr api' \<Rightarrow>
                    (case Parse t of
                       Inl err \<Rightarrow> \<lparr>stdout = out, stderr = [], status = Panic err\<rparr>
                     | Inr tmpl \<Rightarrow>
                         (case Execute tmpl api' of
                            (written, Some err) \<Rightarrow>
                              \<lparr>stdout = out @ written, stderr = [err], status = Exit 1\<rparr>
                          | (written, None) \<Rightarrow>
                              \<lparr>stdout = out @ written, stderr = [], status = Exit 0\<rparr>)))))"


text \<open>
  The rendering of the template against a configuration: what \<^verbatim>\<open>t.Execute\<close> writes.
\<close>

definition render :: "API \<Rightarrow> string" where
  "render api = (case Parse t of Inl e \<Rightarrow> [] | Inr tmpl \<Rightarrow> fst (Execute tmpl api))"

subsection \<open>The decoder of the configuration\<close>

text \<open>
  Modelled from the spec: the decoder (\<^verbatim>\<open>gopkg.in/yaml.v3\<close>, which \<^verbatim>\<open>main.go\<close>
  imports) is not among the sources. The spec asks for a permissive decoding: unknown
  fields are ignored, only \<^verbatim>\<open>metadata.name\<close> and \<^verbatim>\<open>spec.replicas\<close> are extracted,
  and a document that is not valid fails. The model below follows the decoder's
  documented behaviour on the three structs of the program. A stream is first read into
  a document (a tree of scalars with their tag and text, sequences and mappings), which
  is then unmarshalled into the struct: a mapping is matched entry by entry against the
  fields named by the struct tags (\<^verbatim>\<open>metadata\<close>, \<^verbatim>\<open>spec\<close>, \<^verbatim>\<open>name\<close> and
  \<^verbatim>\<open>replicas\<close>; the tags of the source end in a stray quote, which the lookup of a
  tag's first key does not read), a key that names no field is skipped unless
  \<^verbatim>\<open>KnownFields(true)\<close> was set, and every conversion that fails adds a message to
  the type error that \<^verbatim>\<open>Decode\<close> returns at the end. What is not modelled is a
  parameter (\<open>yaml_lib\<close>): the reading of a non-empty text into a document, and the
  conversion of a value into a Go string and into a Go \<^verbatim>\<open>*int\<close>. Aliases and merge
  keys are left out.
\<close>

datatype yaml_node =
    ScalarNode string string
  | SequenceNode "yaml_node list"
  | MappingNode "(yaml_node \<times> yaml_node) list"

datatype parse_result = Syntax_error string | No_document | Document yaml_node

record yaml_lib =
  yaml_parse :: "string \<Rightarrow> parse_result"
  to_string :: "yaml_node \<Rightarrow> string list + string"
  to_int_ptr :: "yaml_node \<Rightarrow> string list + int option"

text \<open>
  Modelled from the spec: the parser of the library. A stream of length zero holds no
  document; every other text is read by the parameter.
\<close>

definition parser_parse :: "yaml_lib \<Rightarrow> string \<Rightarrow> parse_result" where
  "parser_parse lib s = (if s = [] then No_document else yaml_parse lib s)"

text \<open>
  Modelled from the spec: the library's check of a mapping's keys. It compares keys by
  their kind and text: two keys of the same kind and text make the mapping fail before
  any entry is decoded.
\<close>

fun kind_value :: "yaml_node \<Rightarrow> nat \<times> string" where
  "kind_value (ScalarNode tag v) = (0, v)"
| "kind_value (SequenceNode ns) = (1, [])"
| "kind_value (MappingNode kvs) = (2, [])"

type_synonym 'a setter = "yaml_node \<Rightarrow> 'a \<Rightarrow> string list \<times> 'a"

text \<open>
  Modelled from the spec: the library's decoding of a mapping into a struct. The entries
  are taken in order; \<open>seen\<close> lists the fields already set, \<open>field_of\<close> gives the
  setter of a field name. A key that does not convert to a string, a field set twice
  and, when \<open>known\<close> is set, a key that names no field each add a message and the
  decoding goes on with the next entry. A null leaves the struct as it is; any other
  scalar, and a sequence, cannot be unmarshalled into a struct.
\<close>

fun mappingStruct ::
  "yaml_lib \<Rightarrow> bool \<Rightarrow> (string \<Rightarrow> 'a setter option) \<Rightarrow> string list \<Rightarrow>
   (yaml_node \<times> yaml_node) list \<Rightarrow> 'a \<Rightarrow> string list \<times> 'a" where
  "mappingStruct lib known field_of seen [] out = ([], out)"
| "mappingStruct lib known field_of seen ((k, v) # kvs) out =
     (case to_string lib k of
        Inl errs \<Rightarrow>
          (case mappingStruct lib known field_of seen kvs out of
             (es, out') \<Rightarrow> (errs @ es, out'))
      | Inr name \<Rightarrow>
          (case field_of name of
             Some set_field \<Rightarrow>
               if name \<in> set seen then
                 (case mappingStruct lib known field_of seen kvs out of
                    (es, out') \<Rightarrow> (''field already set'' # es, out'))
               else
                 (case set_field v out of
                    (errs, out1) \<Rightarrow>
                      (case mappingStruct lib known field_of (name # seen) kvs out1 of
                         (es, out') \<Rightarrow> (errs @ es, out')))
           | None \<Rightarrow>
               if known then
                 (case mappingStruct lib known field_of seen kvs out of
                    (es, out') \<Rightarrow> (''field not found'' # es, out'))
               else mappingStruct lib known field_of seen kvs out))"

definition unmarshal_struct ::
  "yaml_lib \<Rightarrow> bool \<Rightarrow> (string \<Rightarrow> 'a setter option) \<Rightarrow> 'a setter" where
  "unmarshal_struct lib known field_of n out =
     (case n of
        ScalarNode tag v \<Rightarrow>
          if tag = ''!!null'' then ([], out) else ([''cannot unmarshal''], out)
      | SequenceNode ns \<Rightarrow> ([''cannot unmarshal''], out)
      | MappingNode kvs \<Rightarrow>
          if \<not> distinct (map (kind_value \<circ> fst) kvs)
          then ([''mapping key already defined''], out)
          else mappingStruct lib known field_of [] kvs out)"

definition set_Name :: "yaml_lib \<Rightarrow> Metadata setter" where
  "set_Name lib v m =
     (case to_string lib v of Inl errs \<Rightarrow> (errs, m) | Inr s \<Rightarrow> ([], m\<lparr>Name := s\<rparr>))"

definition set_Replicas :: "yaml_lib \<Rightarrow> Spec setter" where
  "set_Replicas lib v s =
     (case to_int_ptr lib v of Inl errs \<Rightarrow> (errs, s) | Inr p \<Rightarrow> ([], s\<lparr>Replicas := p\<rparr>))"

definition Metadata_fields :: "yaml_lib \<Rightarrow> string \<Rightarrow> Metadata setter option" where
  "Metadata_fields lib f = (if f = ''name'' then Some (set_Name lib) else None)"

definition Spec_fields :: "yaml_lib \<Rightarrow> string \<Rightarrow> Spec setter option" where
  "Spec_fields lib f = (if f = ''replicas'' then Some (set_Replicas lib) else None)"

definition zero_API :: API where
  "zero_API = \<lparr>Metadata = \<lparr>Name = []\<rparr>, Spec = \<lparr>Replicas = None\<rparr>\<rparr>"

definition set_Metadata :: "yaml_lib \<Rightarrow> bool \<Rightarrow> API setter" where
  "set_Metadata lib known v a =
     (case unmarshal_struct lib known (Metadata_fields lib) v (Metadata a) of
        (errs, m) \<Rightarrow> (errs, a\<lparr>Metadata := m\<rparr>))"

definition set_Spec :: "yaml_lib \<Rightarrow> bool \<Rightarrow> API setter" where
  "set_Spec lib known v a =
     (case unmarshal_struct lib known (Spec_fields lib) v (Spec a) of
        (errs, s) \<Rightarrow> (errs, a\<lparr>Spec := s\<rparr>))"

definition API_fields :: "yaml_lib \<Rightarrow> bool \<Rightarrow> string \<Rightarrow> API setter option" where
  "API_fields lib known f =
     (if f = ''metadata'' then Some (set_Metadata lib known)
      else if f = ''spec'' then Some (set_Spec lib known)
      else None)"

definition unmarshal_API :: "yaml_lib \<Rightarrow> bool \<Rightarrow> API setter" where
  "unmarshal_API lib known = unmarshal_struct lib known (API_fields lib known)"

text \<open>
  Modelled from the spec: \<^verbatim>\<open>Decode\<close> of the library, into a fresh \<^verbatim>\<open>&API{}\<close>. It
  returns \<^verbatim>\<open>io.EOF\<close> when the stream holds no document, and the type error when a
  message was recorded.
\<close>

definition yaml_Decode :: "yaml_lib \<Rightarrow> bool \<Rightarrow> string \<Rightarrow> error + API" where
  "yaml_Decode lib known s =
     (case parser_parse lib s of
        Syntax_error msg \<Rightarrow> Inl (YamlError msg)
      | No_document \<Rightarrow> Inl EOF
      | Document n \<Rightarrow>
          (case unmarshal_API lib known n zero_API of
             (errs, api) \<Rightarrow> if errs = [] then Inr api else Inl (TypeError errs)))"

subsection \<open>Unknown fields of a document\<close>











subsection \<open>The template, line by line\<close>

text \<open>
  The notions used to reason about the template one line at a time. A text is
  \<open>closed\<close> when it parses and does not end in an opening brace: no action runs
  across its end. \<open>join\<close> puts two node lists together as the parser would
  (adjacent text is one node), \<open>seq_exec\<close> runs one execution after another, and
  \<open>render_line\<close> parses and executes a single line. \<open>split_lines\<close> cuts a text
  after every newline, \<open>indent\<close> drops leading blanks, and \<open>one_line\<close> holds of a
  text that ends in its only newline.
\<close>

definition Parse_ok :: "string \<Rightarrow> bool" where
  "Parse_ok s = (case Parse s of Inl _ \<Rightarrow> False | Inr _ \<Rightarrow> True)"

definition closed :: "string \<Rightarrow> bool" where
  "closed s \<longleftrightarrow> Parse_ok s \<and> (s = [] \<or> last s \<noteq> CHR ''{'')"

fun join :: "tmpl_node list \<Rightarrow> tmpl_node list \<Rightarrow> tmpl_node list" where
  "join [] ms = ms"
| "join (ActionNode fs # ns) ms = ActionNode fs # join ns ms"
| "join (TextNode s # ns) ms =
     (if ns = [] then foldr text_cons s ms else TextNode s # join ns ms)"

fun seq_exec :: "string \<times> error option \<Rightarrow> string \<times> error option \<Rightarrow> string \<times> error option" where
  "seq_exec (w, None) (w', e) = (w @ w', e)"
| "seq_exec (w, Some e) r = (w, Some e)"

definition render_line :: "API \<Rightarrow> string \<Rightarrow> string \<times> error option" where
  "render_line api l = (case Parse l of Inl e \<Rightarrow> ([], Some e) | Inr ns \<Rightarrow> Execute ns api)"

fun Execute_lines :: "string list \<Rightarrow> API \<Rightarrow> string \<times> error option" where
  "Execute_lines [] api = ([], None)"
| "Execute_lines (l # ls) api = seq_exec (render_line api l) (Execute_lines ls api)"

definition rendered_lines :: "API \<Rightarrow> string list \<Rightarrow> string list" where
  "rendered_lines api ls = map (\<lambda>l. fst (render_line api l)) ls"

definition indent :: "string \<Rightarrow> string" where
  "indent l = dropWhile (\<lambda>c. c = CHR '' '') l"

fun split_lines :: "string \<Rightarrow> string list" where
  "split_lines [] = []"
| "split_lines (c # cs) =
     (if c = CHR 0x0A then [c] # split_lines cs
      else (case split_lines cs of [] \<Rightarrow> [[c]] | l # ls \<Rightarrow> (c # l) # ls))"

fun one_line :: "string \<Rightarrow> bool" where
  "one_line [] = False"
| "one_line [c] = (c = CHR 0x0A)"
| "one_line (c # d # cs) = (c \<noteq> CHR 0x0A \<and> one_line (d # cs))"

subsection \<open>The precedence of the spec\<close>

text \<open>
  The replica count as the spec words it: the explicit value when the configuration
  gives one; otherwise the environment default when it is not empty and parses as an
  integer; otherwise 1. It is compared with \<open>default_Replicas\<close> below.
\<close>

definition parses :: "string \<Rightarrow> bool" where
  "parses r = (case Atoi r of Inl _ \<Rightarrow> False | Inr _ \<Rightarrow> True)"

definition parsed :: "string \<Rightarrow> int" where
  "parsed r = (case Atoi r of Inl _ \<Rightarrow> 0 | Inr n \<Rightarrow> n)"

definition spec_replicas :: "int option \<Rightarrow> string \<Rightarrow> int" where
  "spec_replicas explicit r =
     (case explicit of
        Some R \<Rightarrow> R
      | None \<Rightarrow> if r \<noteq> [] \<and> parses r then parsed r else 1)"

subsection \<open>Sample inputs\<close>

text \<open>
  A small library instance and six configuration texts, used to run the program on
  concrete inputs: \<open>sample_parse\<close> knows these texts only and calls every other text
  a syntax error, and the sample conversions read a scalar's text (an \<^verbatim>\<open>!!int\<close> in
  decimal).
\<close>

definition str :: "string \<Rightarrow> yaml_node" where
  "str v = ScalarNode ''!!str'' v"

definition cfg_explicit :: string where
  "cfg_explicit = ''{metadata: {name: mydb}, spec: {replicas: 3}}''"

definition doc_explicit :: yaml_node where
  "doc_explicit =
     MappingNode
       [(str ''metadata'', MappingNode [(str ''name'', str ''mydb'')]),
        (str ''spec'', MappingNode [(str ''replicas'', ScalarNode ''!!int'' ''3'')])]"

definition cfg_zero :: string where
  "cfg_zero = ''{metadata: {name: mydb}, spec: {replicas: 0}}''"

definition doc_zero :: yaml_node where
  "doc_zero =
     MappingNode
       [(str ''metadata'', MappingNode [(str ''name'', str ''mydb'')]),
        (str ''spec'', MappingNode [(str ''replicas'', ScalarNode ''!!int'' ''0'')])]"

definition cfg_default :: string where
  "cfg_default = ''{metadata: {name: mydb}}''"

definition doc_default :: yaml_node where
  "doc_default = MappingNode [(str ''metadata'', MappingNode [(str ''name'', str ''mydb'')])]"

definition cfg_extra :: string where
  "cfg_extra =
     ''{kind: Database, metadata: {name: mydb, labels: [a, b]}, spec: {paused: true, replicas: 3}}''"

definition doc_extra :: yaml_node where
  "doc_extra =
     MappingNode
       [(str ''kind'', str ''Database''),
        (str ''metadata'',
           MappingNode
             [(str ''name'', str ''mydb''),
              (str ''labels'', SequenceNode [str ''a'', str ''b''])]),
        (str ''spec'',
           MappingNode
             [(str ''paused'', ScalarNode ''!!bool'' ''true''),
              (str ''replicas'', ScalarNode ''!!int'' ''3'')])]"

definition cfg_empty_mapping :: string where
  "cfg_empty_mapping = ''{}''"

definition cfg_repeated :: string where
  "cfg_repeated = ''{kind: A, kind: B, metadata: {name: mydb}}''"

definition doc_repeated :: yaml_node where
  "doc_repeated =
     MappingNode
       [(str ''kind'', str ''A''),
        (str ''kind'', str ''B''),
        (str ''metadata'', MappingNode [(str ''name'', str ''mydb'')])]"

definition cfg_invalid :: string where
  "cfg_invalid = ''{metadata: ''"

definition sample_parse :: "string \<Rightarrow> parse_result" where
  "sample_parse s =
     (if s = cfg_explicit then Document doc_explicit
      else if s = cfg_zero then Document doc_zero
      else if s = cfg_default then Document doc_default
      else if s = cfg_extra then Document doc_extra
      else if s = cfg_empty_mapping then Document (MappingNode [])
      else if s = cfg_repeated then Document doc_repeated
      else Syntax_error ''did not find expected node content'')"

fun sample_to_string :: "yaml_node \<Rightarrow> string list + string" where
  "sample_to_string (ScalarNode tag v) = (if tag = ''!!null'' then Inr [] else Inr v)"
| "sample_to_string n = Inl [''cannot unmarshal'']"

fun sample_to_int_ptr :: "yaml_node \<Rightarrow> string list + int option" where
  "sample_to_int_ptr (ScalarNode tag v) =
     (if tag = ''!!null'' then Inr None
      else if tag = ''!!int''
      then (case Atoi v of Inl e \<Rightarrow> Inl [''cannot unmarshal''] | Inr i \<Rightarrow> Inr (Some i))
      else Inl [''cannot unmarshal''])"
| "sample_to_int_ptr n = Inl [''cannot unmarshal'']"

definition sample_lib :: yaml_lib where
  "sample_lib =
     \<lparr>yaml_parse = sample_parse, to_string = sample_to_string,
      to_int_ptr = sample_to_int_ptr\<rparr>"

definition mydb :: "int option \<Rightarrow> API" where
  "mydb p = \<lparr>Metadata = \<lparr>Name = ''mydb''\<rparr>, Spec = \<lparr>Replicas = p\<rparr>\<rparr>"

definition sample_env :: "string \<Rightarrow> string \<Rightarrow> (string \<rightharpoonup> string)" where
  "sample_env cfg r = [''API_CONFIG'' \<mapsto> cfg, ''REPLICAS'' \<mapsto> r]"

definition only_config :: "string \<Rightarrow> (string \<rightharpoonup> string)" where
  "only_config cfg = [''API_CONFIG'' \<mapsto> cfg]"

section \<open>Properties\<close>

subsection \<open>The sample inputs\<close>

lemmas sample_docs =
  cfg_explicit_def cfg_zero_def cfg_default_def cfg_extra_def cfg_empty_mapping_def
  cfg_invalid_def doc_explicit_def doc_zero_def doc_default_def doc_extra_def
  cfg_repeated_def doc_repeated_def

lemmas decode_defs =
  yaml_Decode_def parser_parse_def unmarshal_API_def unmarshal_struct_def API_fields_def
  set_Metadata_def set_Spec_def Metadata_fields_def Spec_fields_def set_Name_def
  set_Replicas_def zero_API_def

lemmas atoi_defs = Atoi_def ParseInt_def isDigit_def digitVal_def

lemma Decode_samples:
  "yaml_Decode sample_lib False cfg_explicit = Inr (mydb (Some 3))"
  "yaml_Decode sample_lib False cfg_zero = Inr (mydb (Some 0))"
  "yaml_Decode sample_lib False cfg_default = Inr (mydb None)"
  "yaml_Decode sample_lib False cfg_extra = Inr (mydb (Some 3))"
  "yaml_Decode sample_lib False cfg_empty_mapping = Inr zero_API"
  "yaml_Decode sample_lib False cfg_invalid =
     Inl (YamlError ''did not find expected node content'')"
  by (simp_all add: decode_defs sample_lib_def sample_parse_def sample_docs str_def
      mydb_def atoi_defs)

lemma Getenv_samples:
  "Getenv (sample_env cfg r) ''API_CONFIG'' = cfg"
  "Getenv (sample_env cfg r) ''REPLICAS'' = r"
  "Getenv (only_config cfg) ''API_CONFIG'' = cfg"
  "Getenv (only_config cfg) ''REPLICAS'' = []"
  by (simp_all add: Getenv_def sample_env_def only_config_def)

lemma Atoi_samples:
  "Atoi ''3'' = Inr 3"
  "Atoi ''7'' = Inr 7"
  "Atoi ''0'' = Inr 0"
  "Atoi ''-5'' = Inr (- 5)"
  "Atoi ''abc'' = Inl (NumError ''Atoi'' ''abc'' ErrSyntax)"
  by (simp_all add: atoi_defs)

subsection \<open>Decimal integers\<close>

text \<open>
  Printing and parsing agree on the whole range of the \<^verbatim>\<open>int\<close>, and \<open>Atoi\<close>
  returns nothing outside it.
\<close>

lemma ParseUint_loop_snoc:
  "ParseUint_loop n (xs @ [c]) =
     (case ParseUint_loop n xs of Inl e \<Rightarrow> Inl e | Inr v \<Rightarrow> ParseUint_loop v [c])"
  by (induction xs arbitrary: n) auto

lemma isDigit_digitChar: "d < 10 \<Longrightarrow> isDigit (digitChar d)"
proof -
  assume "d < 10"
  then have "d \<in> {0,1,2,3,4,5,6,7,8,9}" by auto
  then show ?thesis by (auto simp: isDigit_def digitChar_def)
qed

lemma digitVal_digitChar: "d < 10 \<Longrightarrow> digitVal (digitChar d) = d"
proof -
  assume "d < 10"
  then have "d \<in> {0,1,2,3,4,5,6,7,8,9}" by auto
  then show ?thesis by (auto simp: digitVal_def digitChar_def)
qed

lemma ParseUint_loop_digits:
  "m < 2 ^ 64 \<Longrightarrow> ParseUint_loop 0 (digits m) = Inr m"
proof (induction m rule: digits.induct)
  case (1 n)
  show ?case
  proof (cases "n < 10")
    case True
    then show ?thesis
      by (subst digits.simps) (simp add: isDigit_digitChar digitVal_digitChar)
  next
    case False
    from "1.prems" have "n div 10 < 2 ^ 64" by simp
    with "1.IH" False have ih: "ParseUint_loop 0 (digits (n div 10)) = Inr (n div 10)" by simp
    have d: "n mod 10 < 10" by simp
    from "1.prems" have c: "\<not> n div 10 \<ge> (2 ^ 64 - 1) div 10 + 1" by simp
    from "1.prems" have r: "\<not> n div 10 * 10 + n mod 10 > 2 ^ 64 - 1" by simp
    show ?thesis
      using False ih c r
      by (subst digits.simps)
         (simp add: ParseUint_loop_snoc isDigit_digitChar[OF d] digitVal_digitChar[OF d])
  qed
qed

lemma digits_hd:
  "digits m \<noteq> [] \<and> isDigit (hd (digits m))"
proof (induction m rule: digits.induct)
  case (1 n)
  show ?case
  proof (cases "n < 10")
    case True
    then show ?thesis by (subst digits.simps, subst digits.simps) (simp add: isDigit_digitChar)
  next
    case False
    with "1.IH" show ?thesis by (subst digits.simps, subst digits.simps) simp
  qed
qed

lemma isDigit_not_sign: "isDigit c \<Longrightarrow> c \<noteq> CHR ''+'' \<and> c \<noteq> CHR ''-''"
  by (auto simp: isDigit_def)

lemma Atoi_Itoa:
  assumes "- (2 ^ 63) \<le> n" and "n < 2 ^ 63"
  shows "Atoi (Itoa n) = Inr n"
proof (cases "n < 0")
  case True
  let ?m = "nat (- n)"
  from assms True have m: "?m \<le> 2 ^ 63" by (simp add: nat_le_iff)
  then have "?m < 2 ^ 64" by simp
  then have p: "ParseUint_loop 0 (digits ?m) = Inr ?m" by (rule ParseUint_loop_digits)
  from digits_hd[of ?m] have ne: "digits ?m \<noteq> []" by simp
  from True m p ne show ?thesis
    by (simp add: Atoi_def Itoa_def ParseInt_def)
next
  case False
  let ?m = "nat n"
  from assms False have m: "?m < 2 ^ 63" by (simp add: nat_less_iff)
  then have "?m < 2 ^ 64" by simp
  then have p: "ParseUint_loop 0 (digits ?m) = Inr ?m" by (rule ParseUint_loop_digits)
  from digits_hd[of ?m] isDigit_not_sign[of "hd (digits ?m)"]
  have ne: "digits ?m \<noteq> []" and s: "hd (digits ?m) \<noteq> CHR ''+''" "hd (digits ?m) \<noteq> CHR ''-''"
    by simp_all
  from False m p ne s show ?thesis
    by (simp add: Atoi_def Itoa_def ParseInt_def)
qed

lemma ParseUint_loop_range:
  "ParseUint_loop n s = Inr un \<Longrightarrow> n < 2 ^ 64 \<Longrightarrow> un < 2 ^ 64"
  by (induction n s rule: ParseUint_loop.induct) (auto split: if_splits)

lemma Atoi_range:
  "Atoi r = Inr n \<Longrightarrow> - (2 ^ 63) \<le> n \<and> n < 2 ^ 63"
  by (auto simp: Atoi_def ParseInt_def Let_def split: sum.splits if_splits)

subsection \<open>Defaulting\<close>

lemma default_Replicas_explicit:
  "Replicas (Spec api) = Some R \<Longrightarrow> default_Replicas r api = Inr api"
  by (simp add: default_Replicas_def)

lemma default_Replicas_parsed:
  "Replicas (Spec api) = None \<Longrightarrow> r \<noteq> [] \<Longrightarrow> Atoi r = Inr n \<Longrightarrow>
   default_Replicas r api = Inr (api\<lparr>Spec := (Spec api)\<lparr>Replicas := Some n\<rparr>\<rparr>)"
  by (simp add: default_Replicas_def)

lemma default_Replicas_fallback:
  "Replicas (Spec api) = None \<Longrightarrow>
   default_Replicas [] api = Inr (api\<lparr>Spec := (Spec api)\<lparr>Replicas := Some 1\<rparr>\<rparr>)"
  by (simp add: default_Replicas_def)

lemma default_Replicas_invalid:
  "Replicas (Spec api) = None \<Longrightarrow> r \<noteq> [] \<Longrightarrow> Atoi r = Inl err \<Longrightarrow>
   default_Replicas r api = Inl err"
  by (simp add: default_Replicas_def)

text \<open>
  C1. The resolved replica count follows the precedence of the spec. \<open>main\<close> calls
  \<open>default_Replicas\<close> with the decoded configuration and the value of
  \<^verbatim>\<open>REPLICAS\<close>. An explicit count (zero included) is kept whatever the environment
  holds; without one, a non-empty default that parses is used; without one and with an
  empty or unset default, the count is 1. In every case but the one where a non-empty
  default does not parse (where no count is resolved: the run fails, see C3),
  the result is the count \<open>spec_replicas\<close> that the spec's wording gives.
\<close>

theorem C1_replicas_precedence:
  "(Replicas (Spec api) = Some R \<longrightarrow> default_Replicas r api = Inr api) \<and>
   (Replicas (Spec api) = None \<and> r \<noteq> [] \<and> Atoi r = Inr n \<longrightarrow>
      default_Replicas r api = Inr (api\<lparr>Spec := (Spec api)\<lparr>Replicas := Some n\<rparr>\<rparr>)) \<and>
   (Replicas (Spec api) = None \<and> r = [] \<longrightarrow>
      default_Replicas r api = Inr (api\<lparr>Spec := (Spec api)\<lparr>Replicas := Some 1\<rparr>\<rparr>)) \<and>
   (\<not> (Replicas (Spec api) = None \<and> r \<noteq> [] \<and> \<not> parses r) \<longrightarrow>
      default_Replicas r api =
        Inr (api\<lparr>Spec := (Spec api)\<lparr>Replicas := Some (spec_replicas (Replicas (Spec api)) r)\<rparr>\<rparr>))"
proof (intro conjI impI)
  assume "Replicas (Spec api) = Some R"
  then show "default_Replicas r api = Inr api" by (rule default_Replicas_explicit)
next
  assume "Replicas (Spec api) = None \<and> r \<noteq> [] \<and> Atoi r = Inr n"
  then show "default_Replicas r api = Inr (api\<lparr>Spec := (Spec api)\<lparr>Replicas := Some n\<rparr>\<rparr>)"
    by (simp add: default_Replicas_parsed)
next
  assume "Replicas (Spec api) = None \<and> r = []"
  then show "default_Replicas r api = Inr (api\<lparr>Spec := (Spec api)\<lparr>Replicas := Some 1\<rparr>\<rparr>)"
    by (simp add: default_Replicas_fallback)
next
  assume ok: "\<not> (Replicas (Spec api) = None \<and> r \<noteq> [] \<and> \<not> parses r)"
  show "default_Replicas r api =
    Inr (api\<lparr>Spec := (Spec api)\<lparr>Replicas := Some (spec_replicas (Replicas (Spec api)) r)\<rparr>\<rparr>)"
  proof (cases "Replicas (Spec api)")
    case (Some R)
    then show ?thesis
      by (simp add: default_Replicas_explicit spec_replicas_def)
  next
    case None
    show ?thesis
    proof (cases "r = []")
      case True
      with None show ?thesis
        by (simp add: default_Replicas_fallback spec_replicas_def)
    next
      case False
      with None ok obtain n where "Atoi r = Inr n"
        by (auto simp: parses_def split: sum.splits)
      with None False show ?thesis
        by (simp add: default_Replicas_parsed spec_replicas_def parses_def parsed_def)
    qed
  qed
qed

theorem C1_witness:
  "default_Replicas ''7'' (mydb (Some 0)) = Inr (mydb (Some 0)) \<and>
   default_Replicas ''abc'' (mydb (Some 3)) = Inr (mydb (Some 3)) \<and>
   default_Replicas ''7'' (mydb None) = Inr (mydb (Some 7)) \<and>
   default_Replicas [] (mydb None) = Inr (mydb (Some 1)) \<and>
   spec_replicas (Some 0) ''7'' = 0 \<and> spec_replicas None ''7'' = 7 \<and>
   spec_replicas None [] = 1"
  using C1_replicas_precedence [of "mydb (Some 0)" 0 "''7''" 7]
    C1_replicas_precedence [of "mydb (Some 3)" 3 "''abc''" 0]
    C1_replicas_precedence [of "mydb None" 0 "''7''" 7]
    C1_replicas_precedence [of "mydb None" 0 "[]" 0]
  by (simp add: mydb_def Atoi_samples spec_replicas_def parses_def parsed_def)

text \<open>
  C5, as the code has it. A resolved replica count is always present and is an
  integer, but it need not be non-negative: it is the explicit count, or the parsed
  default, or 1.
\<close>

theorem C5_resolved_replicas_integer:
  "default_Replicas r api = Inr api' \<Longrightarrow>
   \<exists>n. Replicas (Spec api') = Some n \<and>
     (Replicas (Spec api) = Some n \<or>
      Replicas (Spec api) = None \<and> r \<noteq> [] \<and> Atoi r = Inr n \<or>
      Replicas (Spec api) = None \<and> r = [] \<and> n = 1)"
proof -
  assume ok: "default_Replicas r api = Inr api'"
  show ?thesis
  proof (cases "Replicas (Spec api)")
    case (Some R)
    with ok show ?thesis by (auto simp: default_Replicas_explicit)
  next
    case None
    show ?thesis
    proof (cases "r = []")
      case True
      with None ok show ?thesis by (auto simp: default_Replicas_fallback)
    next
      case False
      show ?thesis
      proof (cases "Atoi r")
        case (Inl err)
        with None False ok show ?thesis by (simp add: default_Replicas_invalid)
      next
        case (Inr n)
        with None False ok show ?thesis
          by (auto simp: default_Replicas_parsed)
      qed
    qed
  qed
qed

theorem C5_witness:
  "default_Replicas ''-5'' (mydb None) = Inr (mydb (Some (- 5))) \<and>
   (\<exists>n. Replicas (Spec (mydb (Some (- 5)))) = Some n \<and>
     (Replicas (Spec (mydb None)) = Some n \<or>
      Replicas (Spec (mydb None)) = None \<and> ''-5'' \<noteq> [] \<and> Atoi ''-5'' = Inr n \<or>
      Replicas (Spec (mydb None)) = None \<and> ''-5'' = [] \<and> n = 1))"
proof -
  have ok: "default_Replicas ''-5'' (mydb None) = Inr (mydb (Some (- 5)))"
    by (simp add: default_Replicas_def mydb_def Atoi_samples)
  from C5_resolved_replicas_integer [OF ok] ok show ?thesis by simp
qed

text \<open>
  C5 as stated fails: the default \<^verbatim>\<open>-5\<close> resolves to the count \<open>-5\<close>.
\<close>

theorem C5_counterexample:
  "default_Replicas ''-5'' (mydb None) = Inr (mydb (Some (- 5)))"
  by (simp add: default_Replicas_def mydb_def Atoi_samples)

text \<open>
  C6. No bound is checked: an explicit count is passed through unchanged whatever its
  sign, a parsed default is stored as parsed, and every integer of the range of the
  \<^verbatim>\<open>int\<close>, negative and zero included, has a decimal string that \<open>Atoi\<close>
  accepts and reads back as that integer.
\<close>

theorem C6_no_bound_on_replicas:
  "(Replicas (Spec api) = Some n \<longrightarrow> default_Replicas r api = Inr api) \<and>
   (Replicas (Spec api) = None \<and> r \<noteq> [] \<and> Atoi r = Inr n \<longrightarrow>
      default_Replicas r api = Inr (api\<lparr>Spec := (Spec api)\<lparr>Replicas := Some n\<rparr>\<rparr>)) \<and>
   (- (2 ^ 63) \<le> n \<and> n < 2 ^ 63 \<longrightarrow> Itoa n \<noteq> [] \<and> Atoi (Itoa n) = Inr n)"
proof (intro conjI impI)
  assume "Replicas (Spec api) = Some n"
  then show "default_Replicas r api = Inr api" by (rule default_Replicas_explicit)
next
  assume "Replicas (Spec api) = None \<and> r \<noteq> [] \<and> Atoi r = Inr n"
  then show "default_Replicas r api = Inr (api\<lparr>Spec := (Spec api)\<lparr>Replicas := Some n\<rparr>\<rparr>)"
    by (simp add: default_Replicas_parsed)
next
  assume "- (2 ^ 63) \<le> n \<and> n < 2 ^ 63"
  then show "Atoi (Itoa n) = Inr n" by (simp add: Atoi_Itoa)
next
  show "Itoa n \<noteq> []" using digits_hd by (simp add: Itoa_def)
qed

theorem C6_witness:
  "default_Replicas ''7'' (mydb (Some (- 2))) = Inr (mydb (Some (- 2))) \<and>
   default_Replicas [] (mydb (Some 0)) = Inr (mydb (Some 0)) \<and>
   default_Replicas ''-5'' (mydb None) = Inr (mydb (Some (- 5))) \<and>
   default_Replicas ''0'' (mydb None) = Inr (mydb (Some 0)) \<and>
   Atoi (Itoa (- 5)) = Inr (- 5) \<and> Atoi (Itoa 0) = Inr 0"
  using C6_no_bound_on_replicas [of "mydb (Some (- 2))" "- 2" "''7''"]
    C6_no_bound_on_replicas [of "mydb (Some 0)" 0 "[]"]
    C6_no_bound_on_replicas [of "mydb None" "- 5" "''-5''"]
    C6_no_bound_on_replicas [of "mydb None" 0 "''0''"]
  by (simp add: mydb_def Atoi_samples)

subsection \<open>Failures before and after the copy\<close>

text \<open>
  C4. When the decoder rejects the configuration (a document that is not valid, or any
  other error of \<^verbatim>\<open>Decode\<close>), the run prints that error, exits with status 1 and has
  written nothing to the standard output: the standard input is not even read.
\<close>

theorem C4_decode_error_no_output:
  "Decode False (Getenv env ''API_CONFIG'') = Inl err \<Longrightarrow>
   main Decode env stdin = \<lparr>stdout = [], stderr = [err], status = Exit 1\<rparr>"
  by (simp add: main_def)

theorem C4_witness:
  "yaml_Decode sample_lib False (Getenv (only_config cfg_invalid) ''API_CONFIG'') =
     Inl (YamlError ''did not find expected node content'') \<and>
   main (yaml_Decode sample_lib) (only_config cfg_invalid) (Reader ''A\<newline>'' None) =
     \<lparr>stdout = [], stderr = [YamlError ''did not find expected node content''],
      status = Exit 1\<rparr>"
  using C4_decode_error_no_output [of "yaml_Decode sample_lib" "only_config cfg_invalid"
      "YamlError ''did not find expected node content''" "Reader ''A\<newline>'' None"]
  by (simp add: Getenv_samples Decode_samples)

lemma main_decoded:
  "Decode False (Getenv env ''API_CONFIG'') = Inr api \<Longrightarrow>
   main Decode env (Reader upstream None) =
     (case default_Replicas (Getenv env ''REPLICAS'') api of
        Inl err \<Rightarrow> \<lparr>stdout = upstream @ ''\<newline>---\<newline>'', stderr = [err], status = Exit 1\<rparr>
      | Inr api' \<Rightarrow>
          (case Parse t of
             Inl err \<Rightarrow> \<lparr>stdout = upstream @ ''\<newline>---\<newline>'', stderr = [], status = Panic err\<rparr>
           | Inr tmpl \<Rightarrow>
               (case Execute tmpl api' of
                  (written, Some err) \<Rightarrow>
                    \<lparr>stdout = upstream @ ''\<newline>---\<newline>'' @ written, stderr = [err],
                     status = Exit 1\<rparr>
                | (written, None) \<Rightarrow>
                    \<lparr>stdout = upstream @ ''\<newline>---\<newline>'' @ written, stderr = [],
                     status = Exit 0\<rparr>)))"
  by (simp add: main_def Println_def split: sum.splits prod.splits option.splits)

text \<open>
  C3, as the code has it. The default is parsed only after the standard input has been
  copied and the separator printed. With no explicit count and a non-empty default that
  \<open>Atoi\<close> rejects, the run prints that error and exits with status 1; by then the
  standard output holds the upstream bytes and the separator, and nothing of the
  template.
\<close>

theorem C3_invalid_default_after_copy:
  "Decode False (Getenv env ''API_CONFIG'') = Inr api \<Longrightarrow>
   Replicas (Spec api) = None \<Longrightarrow>
   Getenv env ''REPLICAS'' \<noteq> [] \<Longrightarrow>
   Atoi (Getenv env ''REPLICAS'') = Inl err \<Longrightarrow>
   main Decode env (Reader upstream None) =
     \<lparr>stdout = upstream @ ''\<newline>---\<newline>'', stderr = [err], status = Exit 1\<rparr>"
  by (simp add: main_decoded default_Replicas_invalid)

theorem C3_witness:
  "yaml_Decode sample_lib False (Getenv (sample_env cfg_default ''abc'') ''API_CONFIG'') =
     Inr (mydb None) \<and>
   Replicas (Spec (mydb None)) = None \<and>
   Getenv (sample_env cfg_default ''abc'') ''REPLICAS'' \<noteq> [] \<and>
   Atoi (Getenv (sample_env cfg_default ''abc'') ''REPLICAS'') =
     Inl (NumError ''Atoi'' ''abc'' ErrSyntax) \<and>
   main (yaml_Decode sample_lib) (sample_env cfg_default ''abc'') (Reader [] None) =
     \<lparr>stdout = ''\<newline>---\<newline>'', stderr = [NumError ''Atoi'' ''abc'' ErrSyntax],
      status = Exit 1\<rparr>"
  using C3_invalid_default_after_copy [of "yaml_Decode sample_lib"
      "sample_env cfg_default ''abc''" "mydb None" "NumError ''Atoi'' ''abc'' ErrSyntax" "[]"]
  by (simp add: Getenv_samples Decode_samples mydb_def Atoi_samples)

text \<open>
  C3 as stated fails: with the default \<^verbatim>\<open>abc\<close> and the upstream \<^verbatim>\<open>A\<close> the
  standard output is not empty.
\<close>

theorem C3_counterexample:
  "main (yaml_Decode sample_lib) (sample_env cfg_default ''abc'') (Reader ''A\<newline>'' None) =
     \<lparr>stdout = ''A\<newline>\<newline>---\<newline>'', stderr = [NumError ''Atoi'' ''abc'' ErrSyntax],
      status = Exit 1\<rparr>"
  by (simp add: main_decoded Getenv_samples Decode_samples default_Replicas_def mydb_def
      Atoi_samples)

subsection \<open>Parsing and executing a text in pieces\<close>

text \<open>
  The action read from a text is the same when more text follows, and what remains
  after it is a suffix of the text.
\<close>

lemma fieldChain_suffix:
  "fieldChain s = Some (fs, r) \<Longrightarrow> suffix r s"
proof (induction s arbitrary: fs r rule: fieldChain.induct)
  case (1 s)
  show ?case
  proof (cases s)
    case Nil
    with "1.prems" show ?thesis by (simp add: fieldChain_Nil)
  next
    case (Cons c s')
    let ?rest = "dropWhile isAlphaNumeric s'"
    have sf: "suffix ?rest s" unfolding Cons
      by (rule suffix_ConsI) (rule suffix_dropWhile)
    show ?thesis
    proof (cases "c = CHR ''.'' \<and> takeWhile isAlphaNumeric s' \<noteq> [] \<and> ?rest \<noteq> [] \<and> hd ?rest = CHR ''.''")
      case True
      with "1.prems" Cons obtain fs' where "fieldChain ?rest = Some (fs', r)"
        by (subst (asm) fieldChain.simps) (auto simp: Let_def)
      with "1.IH"[OF Cons _ refl refl _ _, of fs' r] True have "suffix r ?rest"
        by simp
      then show ?thesis using sf by (rule suffix_order.trans)
    next
      case False
      with "1.prems" Cons have "r = ?rest"
        by (subst (asm) fieldChain.simps) (auto simp: Let_def split: if_splits)
      with sf show ?thesis by simp
    qed
  qed
qed

lemma action_suffix:
  assumes "action s = Inr (fs, r)"
  shows "suffix r s"
proof -
  from assms obtain s' where f: "fieldChain (dropWhile isSpace s) = Some (fs, s')"
    and r: "r = drop (length rightDelim) (dropWhile isSpace s')"
    by (auto simp: action_def split: option.splits if_splits)
  have "suffix r (dropWhile isSpace s')" unfolding r by (rule suffix_drop)
  also have "suffix \<dots> s'" by (rule suffix_dropWhile)
  also have "suffix \<dots> (dropWhile isSpace s)" by (rule fieldChain_suffix[OF f])
  also have "suffix \<dots> s" by (rule suffix_dropWhile)
  finally show ?thesis .
qed

lemma fieldChain_append:
  "fieldChain s = Some (fs, r) \<Longrightarrow> r \<noteq> [] \<Longrightarrow> fieldChain (s @ ys) = Some (fs, r @ ys)"
proof (induction s arbitrary: fs r rule: fieldChain.induct)
  case (1 s)
  show ?case
  proof (cases s)
    case Nil
    with "1.prems" show ?thesis by (simp add: fieldChain_Nil)
  next
    case (Cons c s')
    let ?rest = "dropWhile isAlphaNumeric s'"
    let ?id = "takeWhile isAlphaNumeric s'"
    from "1.prems" Cons have c: "c = CHR ''.''" and id: "?id \<noteq> []"
      by (subst (asm) fieldChain.simps; auto simp: Let_def split: if_splits)+
    show ?thesis
    proof (cases "?rest \<noteq> [] \<and> hd ?rest = CHR ''.''")
      case True
      then have ex: "\<exists>x\<in>set s'. \<not> isAlphaNumeric x"
        by (metis dropWhile_eq_Nil_conv)
      have tw: "takeWhile isAlphaNumeric (s' @ ys) = ?id"
        using ex by auto
      have dw: "dropWhile isAlphaNumeric (s' @ ys) = ?rest @ ys"
        using ex by auto
      from True "1.prems" Cons c id obtain fs' where
        f: "fieldChain ?rest = Some (fs', r)" and fs: "fs = ?id # fs'"
        by (subst (asm) fieldChain.simps) (auto simp: Let_def)
      from "1.IH"[OF Cons _ refl refl _ _ f "1.prems"(2)] c id True
      have "fieldChain (?rest @ ys) = Some (fs', r @ ys)" by simp
      then show ?thesis
        unfolding Cons
        by (subst fieldChain.simps) (use c id True tw dw fs in \<open>simp add: Let_def\<close>)
    next
      case False
      with "1.prems" Cons c id have r: "r = ?rest" and fs: "fs = [?id]"
        by (subst (asm) fieldChain.simps; auto simp: Let_def split: if_splits)+
      with "1.prems"(2) have ne: "?rest \<noteq> []" by simp
      then have ex: "\<exists>x\<in>set s'. \<not> isAlphaNumeric x"
        by (metis dropWhile_eq_Nil_conv)
      have tw: "takeWhile isAlphaNumeric (s' @ ys) = ?id"
        using ex by auto
      have dw: "dropWhile isAlphaNumeric (s' @ ys) = ?rest @ ys"
        using ex by auto
      from False ne have "hd ?rest \<noteq> CHR ''.''" by blast
      then show ?thesis
        unfolding Cons
        by (subst fieldChain.simps) (use c id ne tw dw fs r in \<open>simp add: Let_def\<close>)
    qed
  qed
qed

lemma action_append:
  assumes "action s = Inr (fs, r)"
  shows "action (s @ ys) = Inr (fs, r @ ys)"
proof -
  from assms obtain s' where f: "fieldChain (dropWhile isSpace s) = Some (fs, s')"
    and p: "prefix rightDelim (dropWhile isSpace s')"
    and r: "r = drop (length rightDelim) (dropWhile isSpace s')"
    by (auto simp: action_def split: option.splits if_splits)
  from f have "dropWhile isSpace s \<noteq> []" by (metis fieldChain_Nil option.distinct(1))
  then have 1: "dropWhile isSpace (s @ ys) = dropWhile isSpace s @ ys"
    by (metis dropWhile_append1 dropWhile_eq_Nil_conv)
  have ne: "dropWhile isSpace s' \<noteq> []"
  proof
    assume "dropWhile isSpace s' = []"
    with p show False by (simp add: rightDelim_def)
  qed
  then have s': "s' \<noteq> []" by (metis dropWhile.simps(1))
  from ne have 2: "dropWhile isSpace (s' @ ys) = dropWhile isSpace s' @ ys"
    by (metis dropWhile_append1 dropWhile_eq_Nil_conv)
  from p have 3: "prefix rightDelim (dropWhile isSpace s' @ ys)"
    by (rule prefix_prefix)
  from p have "length rightDelim \<le> length (dropWhile isSpace s')"
    by (rule prefix_length_le)
  then have 4: "drop (length rightDelim) (dropWhile isSpace s' @ ys) = r @ ys"
    by (simp add: r)
  show ?thesis
    by (simp add: action_def 1 2 3 4 fieldChain_append[OF f s'] del: drop_append)
qed

text \<open>
  Parsing a closed text followed by any other text parses each on its own, and
  executing the result executes one after the other.
\<close>

lemma text_cons_join:
  "text_cons c (join ns ms) = join (text_cons c ns) ms"
  by (cases "(c, ns)" rule: text_cons.cases) auto

lemma prefix_leftDelim_Cons:
  "prefix leftDelim (c # cs) \<longleftrightarrow> c = CHR ''{'' \<and> cs \<noteq> [] \<and> hd cs = CHR ''{''"
  by (cases cs) (auto simp: leftDelim_def)

lemma Parse_append:
  "closed xs \<Longrightarrow> Parse xs = Inr ns \<Longrightarrow>
   Parse (xs @ ys) = (case Parse ys of Inl e \<Rightarrow> Inl e | Inr ms \<Rightarrow> Inr (join ns ms))"
proof (induction xs arbitrary: ns rule: Parse.induct)
  case 1
  then show ?case by (simp split: sum.splits)
next
  case (2 c cs)
  from "2.prems"(1) have last: "last (c # cs) \<noteq> CHR ''{''"
    by (simp add: closed_def)
  show ?case
  proof (cases "prefix leftDelim (c # cs)")
    case True
    then have cs: "cs \<noteq> []" and pre: "prefix leftDelim (c # cs @ ys)"
      by (auto simp: prefix_leftDelim_Cons)
    from True "2.prems"(2) obtain fs rest ns' where
      a: "action (drop 1 cs) = Inr (fs, rest)" and p: "Parse rest = Inr ns'"
      and ns: "ns = ActionNode fs # ns'"
      by (auto split: sum.splits)
    from cs have d: "drop 1 (cs @ ys) = drop 1 cs @ ys" by (cases cs) auto
    have "suffix rest (c # cs)"
      using action_suffix[OF a] by (meson suffix_ConsI suffix_drop suffix_order.trans)
    then have "rest = [] \<or> last rest = last (c # cs)"
      by (metis last_appendR suffix_def)
    with last p have "closed rest"
      by (auto simp: closed_def Parse_ok_def)
    from "2.IH"(1)[OF True a refl this p]
    have "Parse (rest @ ys) = (case Parse ys of Inl e \<Rightarrow> Inl e | Inr ms \<Rightarrow> Inr (join ns' ms))" .
    then show ?thesis
      using pre d action_append[OF a, of ys] ns
      by (auto split: sum.splits)
  next
    case False
    from False "2.prems"(2) obtain ns' where p: "Parse cs = Inr ns'"
      and ns: "ns = text_cons c ns'"
      by (auto split: sum.splits)
    from last have "cs = [] \<or> last cs \<noteq> CHR ''{''" by (auto split: if_splits)
    with p have "closed cs" by (auto simp: closed_def Parse_ok_def)
    from "2.IH"(2)[OF False this p]
    have ih: "Parse (cs @ ys) = (case Parse ys of Inl e \<Rightarrow> Inl e | Inr ms \<Rightarrow> Inr (join ns' ms))" .
    from False last have "\<not> prefix leftDelim (c # cs @ ys)"
      by (cases cs) (auto simp: prefix_leftDelim_Cons)
    then show ?thesis
      using ih ns by (auto split: sum.splits simp: text_cons_join)
  qed
qed

lemma Execute_text_cons:
  "Execute (text_cons c ns) api = (case Execute ns api of (w, e) \<Rightarrow> (c # w, e))"
  by (cases "(c, ns)" rule: text_cons.cases) (auto split: prod.splits)

lemma Execute_foldr_text_cons:
  "Execute (foldr text_cons s ms) api = (case Execute ms api of (w, e) \<Rightarrow> (s @ w, e))"
  by (induction s) (auto simp: Execute_text_cons split: prod.splits)

lemma seq_exec_eq:
  "seq_exec (w, e) r = (case e of None \<Rightarrow> (w @ fst r, snd r) | Some x \<Rightarrow> (w, Some x))"
  by (cases e; cases r) auto

lemma Execute_join:
  "Execute (join ns ms) api = seq_exec (Execute ns api) (Execute ms api)"
proof (induction ns ms rule: join.induct)
  case (1 ms)
  then show ?case by (cases "Execute ms api") simp
next
  case (2 fs ns ms)
  then show ?case
    by (cases "Execute ns api"; cases "Execute ms api")
       (auto simp: seq_exec_eq split: sum.splits option.splits)
next
  case (3 s ns ms)
  then show ?case
    by (cases "Execute ns api"; cases "Execute ms api")
       (auto simp: seq_exec_eq Execute_foldr_text_cons split: sum.splits option.splits)
qed

lemma Parse_plain:
  "CHR ''{'' \<notin> set l \<Longrightarrow> Parse l = Inr (foldr text_cons l [])"
  by (induction l) (auto simp: prefix_leftDelim_Cons)

lemma closed_if:
  "closed l = (if CHR ''{'' \<in> set l then Parse_ok l \<and> last l \<noteq> CHR ''{'' else True)"
proof (cases "CHR ''{'' \<in> set l")
  case True
  then have "l \<noteq> []" by auto
  with True show ?thesis by (simp add: closed_def)
next
  case False
  then have "l = [] \<or> last l \<noteq> CHR ''{''"
    by (metis last_in_set)
  with False show ?thesis by (simp add: closed_def Parse_ok_def Parse_plain)
qed

lemma render_line_if:
  "render_line api l =
     (if CHR ''{'' \<in> set l
      then (case Parse l of Inl e \<Rightarrow> ([], Some e) | Inr ns \<Rightarrow> Execute ns api)
      else (l, None))"
  by (simp add: render_line_def Parse_plain Execute_foldr_text_cons)

lemma Parse_concat:
  "list_all closed ls \<Longrightarrow>
   \<exists>ns. Parse (concat ls) = Inr ns \<and> (\<forall>api. Execute ns api = Execute_lines ls api)"
proof (induction ls)
  case Nil
  then show ?case by simp
next
  case (Cons l ls)
  then obtain ms where ms: "Parse (concat ls) = Inr ms"
    and ex: "\<forall>api. Execute ms api = Execute_lines ls api" by auto
  from Cons.prems have cl: "closed l" by simp
  then obtain ns where ns: "Parse l = Inr ns"
    by (auto simp: closed_def Parse_ok_def split: sum.splits)
  from Parse_append[OF cl ns, of "concat ls"] ms
  have "Parse (concat (l # ls)) = Inr (join ns ms)" by simp
  moreover have "\<forall>api. Execute (join ns ms) api = Execute_lines (l # ls) api"
    by (simp add: Execute_join ex render_line_def ns)
  ultimately show ?case by blast
qed

lemma Execute_lines_ok:
  "list_all (\<lambda>l. snd (render_line api l) = None) ls \<Longrightarrow>
   Execute_lines ls api = (concat (rendered_lines api ls), None)"
proof (induction ls)
  case Nil
  then show ?case by (simp add: rendered_lines_def)
next
  case (Cons l ls)
  then show ?case by (cases "render_line api l") (simp add: seq_exec_eq rendered_lines_def)
qed

lemma printValue_int_ptr:
  "printValue (int_ptr_val p) = Inr (case p of None \<Rightarrow> ''<nil>'' | Some i \<Rightarrow> Itoa i)"
  by (cases p) auto

lemma split_lines_one_line:
  "one_line l \<Longrightarrow> split_lines (l @ rest) = l # split_lines rest"
  by (induction l rule: one_line.induct) simp_all

lemma split_lines_concat:
  "list_all one_line ls \<Longrightarrow> split_lines (concat ls) = ls"
  by (induction ls) (simp_all add: split_lines_one_line)

subsection \<open>The template \<open>t\<close>\<close>

text \<open>
  Every line of \<open>t\<close> is closed and renders without an error for every configuration:
  each section is evaluated on its own. Hence \<open>t\<close> parses, its execution never fails,
  and the rendering is the concatenation of the rendered lines.
\<close>

lemmas lex_eval = leftDelim_def rightDelim_def action_def fieldChain.simps isSpace_def
  isAlphaNumeric_def

lemmas t_sections = t_public_service_def t_service_metadata_def t_service_spec_def t_budget_def t_statefulset_metadata_def t_statefulset_spec_def t_pod_spec_def t_init_containers_def t_affinity_def t_containers_def t_command_def t_volumes_def

lemma closed_sections:
  "list_all closed t_public_service"
  "list_all closed t_service_metadata"
  "list_all closed t_service_spec"
  "list_all closed t_budget"
  "list_all closed t_statefulset_metadata"
  "list_all closed t_statefulset_spec"
  "list_all closed t_pod_spec"
  "list_all closed t_init_containers"
  "list_all closed t_affinity"
  "list_all closed t_containers"
  "list_all closed t_command"
  "list_all closed t_volumes"
  by (simp_all add: t_sections closed_if Parse_ok_def lex_eval)

lemma render_sections_ok:
  "list_all (\<lambda>l. snd (render_line api l) = None) t_public_service"
  "list_all (\<lambda>l. snd (render_line api l) = None) t_service_metadata"
  "list_all (\<lambda>l. snd (render_line api l) = None) t_service_spec"
  "list_all (\<lambda>l. snd (render_line api l) = None) t_budget"
  "list_all (\<lambda>l. snd (render_line api l) = None) t_statefulset_metadata"
  "list_all (\<lambda>l. snd (render_line api l) = None) t_statefulset_spec"
  "list_all (\<lambda>l. snd (render_line api l) = None) t_pod_spec"
  "list_all (\<lambda>l. snd (render_line api l) = None) t_init_containers"
  "list_all (\<lambda>l. snd (render_line api l) = None) t_affinity"
  "list_all (\<lambda>l. snd (render_line api l) = None) t_containers"
  "list_all (\<lambda>l. snd (render_line api l) = None) t_command"
  "list_all (\<lambda>l. snd (render_line api l) = None) t_volumes"
  by (simp_all add: t_sections render_line_if lex_eval evalAction_def printValue_int_ptr)

lemma closed_t_lines: "list_all closed t_lines"
  by (simp add: t_lines_def closed_sections)

lemma render_t_lines_ok: "list_all (\<lambda>l. snd (render_line api l) = None) t_lines"
  by (simp add: t_lines_def render_sections_ok)

lemma Parse_t:
  "\<exists>tmpl. Parse t = Inr tmpl \<and>
     (\<forall>api. Execute tmpl api = (concat (rendered_lines api t_lines), None))"
  unfolding t_def
  using Parse_concat[OF closed_t_lines] Execute_lines_ok[OF render_t_lines_ok]
  by auto

lemma render_eq: "render api = concat (rendered_lines api t_lines)"
  using Parse_t by (auto simp: render_def)

lemma render_Execute:
  "\<exists>tmpl. Parse t = Inr tmpl \<and> (\<forall>api. Execute tmpl api = (render api, None))"
  using Parse_t by (auto simp: render_def)

text \<open>
  The lines rendered for the name \<^verbatim>\<open>mydb\<close> and three replicas: each is one line of
  the output, nine of them are labels and one is the replica count.
\<close>

lemmas render_eval = rendered_lines_def render_line_if lex_eval evalAction_def
  printValue_int_ptr mydb_def Itoa_def digits.simps digitChar_def

lemma one_line_sections:
  "list_all one_line (rendered_lines (mydb (Some 3)) t_public_service)"
  "list_all one_line (rendered_lines (mydb (Some 3)) t_service_metadata)"
  "list_all one_line (rendered_lines (mydb (Some 3)) t_service_spec)"
  "list_all one_line (rendered_lines (mydb (Some 3)) t_budget)"
  "list_all one_line (rendered_lines (mydb (Some 3)) t_statefulset_metadata)"
  "list_all one_line (rendered_lines (mydb (Some 3)) t_statefulset_spec)"
  "list_all one_line (rendered_lines (mydb (Some 3)) t_pod_spec)"
  "list_all one_line (rendered_lines (mydb (Some 3)) t_init_containers)"
  "list_all one_line (rendered_lines (mydb (Some 3)) t_affinity)"
  "list_all one_line (rendered_lines (mydb (Some 3)) t_containers)"
  "list_all one_line (rendered_lines (mydb (Some 3)) t_command)"
  "list_all one_line (rendered_lines (mydb (Some 3)) t_volumes)"
  by (simp_all add: t_sections render_eval)

lemma label_sections:
  "map indent [l \<leftarrow> rendered_lines (mydb (Some 3)) t_public_service. prefix ''app: '' (indent l)] = [''app: mydb-cockroachdb\<newline>'', ''app: mydb-cockroachdb\<newline>'']"
  "map indent [l \<leftarrow> rendered_lines (mydb (Some 3)) t_service_metadata. prefix ''app: '' (indent l)] = [''app: mydb-cockroachdb\<newline>'']"
  "map indent [l \<leftarrow> rendered_lines (mydb (Some 3)) t_service_spec. prefix ''app: '' (indent l)] = [''app: mydb-cockroachdb\<newline>'']"
  "map indent [l \<leftarrow> rendered_lines (mydb (Some 3)) t_budget. prefix ''app: '' (indent l)] = [''app: mydb-cockroachdb\<newline>'', ''app: mydb-cockroachdb\<newline>'']"
  "map indent [l \<leftarrow> rendered_lines (mydb (Some 3)) t_statefulset_metadata. prefix ''app: '' (indent l)] = [''app: mydb-cockroachdb\<newline>'']"
  "map indent [l \<leftarrow> rendered_lines (mydb (Some 3)) t_statefulset_spec. prefix ''app: '' (indent l)] = [''app: mydb-cockroachdb\<newline>'', ''app: mydb-cockroachdb\<newline>'']"
  "map indent [l \<leftarrow> rendered_lines (mydb (Some 3)) t_pod_spec. prefix ''app: '' (indent l)] = []"
  "map indent [l \<leftarrow> rendered_lines (mydb (Some 3)) t_init_containers. prefix ''app: '' (indent l)] = []"
  "map indent [l \<leftarrow> rendered_lines (mydb (Some 3)) t_affinity. prefix ''app: '' (indent l)] = []"
  "map indent [l \<leftarrow> rendered_lines (mydb (Some 3)) t_containers. prefix ''app: '' (indent l)] = []"
  "map indent [l \<leftarrow> rendered_lines (mydb (Some 3)) t_command. prefix ''app: '' (indent l)] = []"
  "map indent [l \<leftarrow> rendered_lines (mydb (Some 3)) t_volumes. prefix ''app: '' (indent l)] = []"
  by (simp_all add: t_sections render_eval indent_def)

lemma replicas_sections:
  "[l \<leftarrow> rendered_lines (mydb (Some 3)) t_public_service. prefix ''replicas: '' (indent l)] = []"
  "[l \<leftarrow> rendered_lines (mydb (Some 3)) t_service_metadata. prefix ''replicas: '' (indent l)] = []"
  "[l \<leftarrow> rendered_lines (mydb (Some 3)) t_service_spec. prefix ''replicas: '' (indent l)] = []"
  "[l \<leftarrow> rendered_lines (mydb (Some 3)) t_budget. prefix ''replicas: '' (indent l)] = []"
  "[l \<leftarrow> rendered_lines (mydb (Some 3)) t_statefulset_metadata. prefix ''replicas: '' (indent l)] = []"
  "[l \<leftarrow> rendered_lines (mydb (Some 3)) t_statefulset_spec. prefix ''replicas: '' (indent l)] = [''  replicas: 3\<newline>'']"
  "[l \<leftarrow> rendered_lines (mydb (Some 3)) t_pod_spec. prefix ''replicas: '' (indent l)] = []"
  "[l \<leftarrow> rendered_lines (mydb (Some 3)) t_init_containers. prefix ''replicas: '' (indent l)] = []"
  "[l \<leftarrow> rendered_lines (mydb (Some 3)) t_affinity. prefix ''replicas: '' (indent l)] = []"
  "[l \<leftarrow> rendered_lines (mydb (Some 3)) t_containers. prefix ''replicas: '' (indent l)] = []"
  "[l \<leftarrow> rendered_lines (mydb (Some 3)) t_command. prefix ''replicas: '' (indent l)] = []"
  "[l \<leftarrow> rendered_lines (mydb (Some 3)) t_volumes. prefix ''replicas: '' (indent l)] = []"
  by (simp_all add: t_sections render_eval indent_def)

lemma rendered_lines_append:
  "rendered_lines api (xs @ ys) = rendered_lines api xs @ rendered_lines api ys"
  by (simp add: rendered_lines_def)

lemma split_lines_render_mydb:
  "split_lines (render (mydb (Some 3))) = rendered_lines (mydb (Some 3)) t_lines"
  unfolding render_eq
  by (rule split_lines_concat) (simp add: t_lines_def rendered_lines_append one_line_sections)

lemma labels_mydb:
  "map indent [l \<leftarrow> split_lines (render (mydb (Some 3))). prefix ''app: '' (indent l)] =
     replicate 9 ''app: mydb-cockroachdb\<newline>''"
  unfolding split_lines_render_mydb
  by (simp add: t_lines_def rendered_lines_append label_sections eval_nat_numeral)

lemma replicas_mydb:
  "[l \<leftarrow> split_lines (render (mydb (Some 3))). prefix ''replicas: '' (indent l)] =
     [''  replicas: 3\<newline>'']"
  unfolding split_lines_render_mydb
  by (simp add: t_lines_def rendered_lines_append replicas_sections)

subsection \<open>The output of a run\<close>

lemma main_resolved:
  assumes "Decode False (Getenv env ''API_CONFIG'') = Inr api"
    and "default_Replicas (Getenv env ''REPLICAS'') api = Inr api'"
  shows "main Decode env (Reader upstream None) =
     \<lparr>stdout = upstream @ ''\<newline>---\<newline>'' @ render api', stderr = [], status = Exit 0\<rparr>"
proof -
  from Parse_t obtain tmpl where p: "Parse t = Inr tmpl"
    and e: "Execute tmpl api' = (concat (rendered_lines api' t_lines), None)" by blast
  from p e have "render api' = concat (rendered_lines api' t_lines)"
    by (simp add: render_def)
  with assms p e show ?thesis
    by (simp add: main_def Println_def)
qed

lemma main_read_error:
  "Decode False (Getenv env ''API_CONFIG'') = Inr api \<Longrightarrow>
   main Decode env (Reader bytes (Some err)) =
     \<lparr>stdout = bytes, stderr = [], status = Panic err\<rparr>"
  by (simp add: main_def)

text \<open>
  C2. When the configuration decodes and the replica count resolves, the template
  parses and executes without an error, the run ends with status 0, and its complete
  output is the upstream bytes unchanged, then a newline and the line \<^verbatim>\<open>---\<close>,
  then the rendering of the template against the resolved configuration; so it is for
  the empty stream, whose output starts with the separator. The upstream bytes come
  first: when reading the stream fails, the run panics with only the bytes read so far
  on the output and nothing of the template.
\<close>

theorem C2_output_composition:
  "Decode False (Getenv env ''API_CONFIG'') = Inr api \<Longrightarrow>
   default_Replicas (Getenv env ''REPLICAS'') api = Inr api' \<Longrightarrow>
   (\<exists>tmpl. Parse t = Inr tmpl \<and> Execute tmpl api' = (render api', None)) \<and>
   main Decode env (Reader upstream None) =
     \<lparr>stdout = upstream @ ''\<newline>---\<newline>'' @ render api', stderr = [], status = Exit 0\<rparr> \<and>
   main Decode env (Reader [] None) =
     \<lparr>stdout = ''\<newline>---\<newline>'' @ render api', stderr = [], status = Exit 0\<rparr> \<and>
   main Decode env (Reader upstream (Some err)) =
     \<lparr>stdout = upstream, stderr = [], status = Panic err\<rparr>"
proof -
  assume d: "Decode False (Getenv env ''API_CONFIG'') = Inr api"
    and r: "default_Replicas (Getenv env ''REPLICAS'') api = Inr api'"
  from render_Execute obtain tmpl where "Parse t = Inr tmpl"
    and "\<forall>api. Execute tmpl api = (render api, None)" by blast
  then have "\<exists>tmpl. Parse t = Inr tmpl \<and> Execute tmpl api' = (render api', None)"
    by blast
  with main_resolved [of Decode env api api', OF d r] main_read_error [of Decode env api, OF d]
  show ?thesis by simp
qed

theorem C2_witness:
  "yaml_Decode sample_lib False (Getenv (sample_env cfg_default ''7'') ''API_CONFIG'') =
     Inr (mydb None) \<and>
   default_Replicas (Getenv (sample_env cfg_default ''7'') ''REPLICAS'') (mydb None) =
     Inr (mydb (Some 7)) \<and>
   (\<exists>tmpl. Parse t = Inr tmpl \<and>
      Execute tmpl (mydb (Some 7)) = (render (mydb (Some 7)), None)) \<and>
   main (yaml_Decode sample_lib) (sample_env cfg_default ''7'') (Reader ''kind: A\<newline>'' None) =
     \<lparr>stdout = ''kind: A\<newline>'' @ ''\<newline>---\<newline>'' @ render (mydb (Some 7)), stderr = [],
      status = Exit 0\<rparr> \<and>
   main (yaml_Decode sample_lib) (sample_env cfg_default ''7'') (Reader [] None) =
     \<lparr>stdout = ''\<newline>---\<newline>'' @ render (mydb (Some 7)), stderr = [], status = Exit 0\<rparr>"
proof -
  have d: "yaml_Decode sample_lib False (Getenv (sample_env cfg_default ''7'') ''API_CONFIG'') =
      Inr (mydb None)"
    by (simp add: Getenv_samples Decode_samples)
  have r: "default_Replicas (Getenv (sample_env cfg_default ''7'') ''REPLICAS'') (mydb None) =
      Inr (mydb (Some 7))"
    by (simp add: Getenv_samples default_Replicas_def mydb_def Atoi_samples)
  from C2_output_composition [where Decode = "yaml_Decode sample_lib", OF d r,
      of "''kind: A\<newline>''" EOF] d r
  show ?thesis by simp
qed

text \<open>
  C7. For the upstream \<^verbatim>\<open>"A\n"\<close> and a configuration resolved to the name
  \<^verbatim>\<open>mydb\<close> and three replicas, the output is \<^verbatim>\<open>"A\n\n---\n"\<close> followed by the
  rendered template; the lines of the rendering that hold an \<^verbatim>\<open>app:\<close> label are the
  nine lines \<^verbatim>\<open>app: mydb-cockroachdb\<close>, and its one \<^verbatim>\<open>replicas:\<close> line reads
  \<^verbatim>\<open>replicas: 3\<close>.
\<close>

theorem C7_sample_output:
  "Decode False (Getenv env ''API_CONFIG'') = Inr api \<Longrightarrow>
   default_Replicas (Getenv env ''REPLICAS'') api = Inr api' \<Longrightarrow>
   Name (Metadata api') = ''mydb'' \<Longrightarrow>
   Replicas (Spec api') = Some 3 \<Longrightarrow>
   stdout (main Decode env (Reader ''A\<newline>'' None)) = ''A\<newline>\<newline>---\<newline>'' @ render api' \<and>
   map indent [l \<leftarrow> split_lines (render api'). prefix ''app: '' (indent l)] =
     replicate 9 ''app: mydb-cockroachdb\<newline>'' \<and>
   [l \<leftarrow> split_lines (render api'). prefix ''replicas: '' (indent l)] =
     [''  replicas: 3\<newline>'']"
proof -
  assume d: "Decode False (Getenv env ''API_CONFIG'') = Inr api"
    and r: "default_Replicas (Getenv env ''REPLICAS'') api = Inr api'"
    and n: "Name (Metadata api') = ''mydb''" and c: "Replicas (Spec api') = Some 3"
  from n c have "api' = mydb (Some 3)" by (simp add: mydb_def)
  with main_resolved [where Decode = Decode, OF d r, of "''A\<newline>''"] labels_mydb
    replicas_mydb
  show ?thesis by simp
qed

theorem C7_witness:
  "yaml_Decode sample_lib False (Getenv (sample_env cfg_explicit []) ''API_CONFIG'') =
     Inr (mydb (Some 3)) \<and>
   default_Replicas (Getenv (sample_env cfg_explicit []) ''REPLICAS'') (mydb (Some 3)) =
     Inr (mydb (Some 3)) \<and>
   Name (Metadata (mydb (Some 3))) = ''mydb'' \<and>
   Replicas (Spec (mydb (Some 3))) = Some 3 \<and>
   stdout (main (yaml_Decode sample_lib) (sample_env cfg_explicit []) (Reader ''A\<newline>'' None)) =
     ''A\<newline>\<newline>---\<newline>'' @ render (mydb (Some 3)) \<and>
   map indent [l \<leftarrow> split_lines (render (mydb (Some 3))). prefix ''app: '' (indent l)] =
     replicate 9 ''app: mydb-cockroachdb\<newline>'' \<and>
   [l \<leftarrow> split_lines (render (mydb (Some 3))). prefix ''replicas: '' (indent l)] =
     [''  replicas: 3\<newline>'']"
proof -
  have d: "yaml_Decode sample_lib False (Getenv (sample_env cfg_explicit []) ''API_CONFIG'') =
      Inr (mydb (Some 3))"
    by (simp add: Getenv_samples Decode_samples)
  have r: "default_Replicas (Getenv (sample_env cfg_explicit []) ''REPLICAS'') (mydb (Some 3)) =
      Inr (mydb (Some 3))"
    by (simp add: Getenv_samples default_Replicas_def mydb_def)
  have n: "Name (Metadata (mydb (Some 3))) = ''mydb''" by (simp add: mydb_def)
  have c: "Replicas (Spec (mydb (Some 3))) = Some 3" by (simp add: mydb_def)
  from C7_sample_output [where Decode = "yaml_Decode sample_lib", OF d r n c] d r n c
  show ?thesis by simp
qed

text \<open>
  C9. The output is a function of the resolved configuration and the upstream stream:
  two runs that resolve to the same configuration, from whatever documents, decoders
  and defaults, and read the same standard input end in the same state, byte for
  byte.
\<close>

theorem C9_deterministic:
  "DecodeA False (Getenv env1 ''API_CONFIG'') = Inr api1 \<Longrightarrow>
   DecodeB False (Getenv env2 ''API_CONFIG'') = Inr api2 \<Longrightarrow>
   default_Replicas (Getenv env1 ''REPLICAS'') api1 = Inr resolved \<Longrightarrow>
   default_Replicas (Getenv env2 ''REPLICAS'') api2 = Inr resolved \<Longrightarrow>
   main DecodeA env1 stdin = main DecodeB env2 stdin"
  by (cases stdin) (simp add: main_def split: option.splits)

theorem C9_witness:
  "yaml_Decode sample_lib False (Getenv (sample_env cfg_extra ''7'') ''API_CONFIG'') =
     Inr (mydb (Some 3)) \<and>
   yaml_Decode sample_lib False (Getenv (sample_env cfg_default ''3'') ''API_CONFIG'') =
     Inr (mydb None) \<and>
   default_Replicas (Getenv (sample_env cfg_extra ''7'') ''REPLICAS'') (mydb (Some 3)) =
     Inr (mydb (Some 3)) \<and>
   default_Replicas (Getenv (sample_env cfg_default ''3'') ''REPLICAS'') (mydb None) =
     Inr (mydb (Some 3)) \<and>
   main (yaml_Decode sample_lib) (sample_env cfg_extra ''7'') (Reader ''A\<newline>'' None) =
     main (yaml_Decode sample_lib) (sample_env cfg_default ''3'') (Reader ''A\<newline>'' None)"
proof -
  have d1: "yaml_Decode sample_lib False (Getenv (sample_env cfg_extra ''7'') ''API_CONFIG'') =
      Inr (mydb (Some 3))"
    by (simp add: Getenv_samples Decode_samples)
  have d2: "yaml_Decode sample_lib False (Getenv (sample_env cfg_default ''3'') ''API_CONFIG'') =
      Inr (mydb None)"
    by (simp add: Getenv_samples Decode_samples)
  have r1: "default_Replicas (Getenv (sample_env cfg_extra ''7'') ''REPLICAS'') (mydb (Some 3)) =
      Inr (mydb (Some 3))"
    by (simp add: Getenv_samples default_Replicas_def mydb_def)
  have r2: "default_Replicas (Getenv (sample_env cfg_default ''3'') ''REPLICAS'') (mydb None) =
      Inr (mydb (Some 3))"
    by (simp add: Getenv_samples default_Replicas_def mydb_def Atoi_samples)
  from C9_deterministic [where DecodeA = "yaml_Decode sample_lib"
      and DecodeB = "yaml_Decode sample_lib", OF d1 d2 r1 r2, of "Reader ''A\<newline>'' None"]
    d1 d2 r1 r2
  show ?thesis by simp
qed

subsection \<open>The decoder\<close>













text \<open>
  C10. When \<^verbatim>\<open>API_CONFIG\<close> is empty or not set, the decoder finds no document and
  returns \<^verbatim>\<open>io.EOF\<close>: the run exits with status 1 and no output. This is so even
  though both fields are optional: the empty mapping decodes to the configuration with
  an empty name and no replica count.
\<close>

theorem C10_empty_config_fails:
  "(Getenv env ''API_CONFIG'' = [] \<longrightarrow>
      main (yaml_Decode lib) env stdin = \<lparr>stdout = [], stderr = [EOF], status = Exit 1\<rparr>) \<and>
   (s \<noteq> [] \<and> yaml_parse lib s = Document (MappingNode []) \<longrightarrow>
      yaml_Decode lib known s = Inr \<lparr>Metadata = \<lparr>Name = []\<rparr>, Spec = \<lparr>Replicas = None\<rparr>\<rparr>)"
  by (simp add: main_def decode_defs)

theorem C10_witness:
  "Getenv Map.empty ''API_CONFIG'' = [] \<and>
   main (yaml_Decode sample_lib) Map.empty (Reader ''A\<newline>'' None) =
     \<lparr>stdout = [], stderr = [EOF], status = Exit 1\<rparr> \<and>
   cfg_empty_mapping \<noteq> [] \<and>
   yaml_parse sample_lib cfg_empty_mapping = Document (MappingNode []) \<and>
   yaml_Decode sample_lib False cfg_empty_mapping =
     Inr \<lparr>Metadata = \<lparr>Name = []\<rparr>, Spec = \<lparr>Replicas = None\<rparr>\<rparr>"
  using C10_empty_config_fails [of Map.empty sample_lib "Reader ''A\<newline>'' None"
      cfg_empty_mapping False]
  by (simp add: Getenv_def sample_lib_def sample_parse_def sample_docs)

end
